theory Spec2Isabelle
  imports Complex_Main "HOL-Library.Sublist"
begin

section \<open>The download orchestration of \<^verbatim>\<open>src/services/ytDlpService.ts\<close>\<close>

text \<open>
  A shallow embedding of the service that drives the external extractor
  (\<^verbatim>\<open>yt-dlp\<close>): platform detection, argument construction, the two-tier
  invocation, and the orchestration function \<^verbatim>\<open>downloadVideoAndExtractAudio\<close>.

  JavaScript strings are modelled as \<^typ>\<open>string\<close>. The service only tests them
  for ASCII substrings, prefixes and suffixes and cuts them at the first \<^verbatim>\<open>?\<close>; on
  well-formed text these operations give the same answers on code units and on bytes.
\<close>

subsection \<open>String operations of the JavaScript runtime\<close>

definition includes_str :: "string \<Rightarrow> string \<Rightarrow> bool" where
  \<comment> \<open>\<^verbatim>\<open>s.includes(sub)\<close>: \<open>sub\<close> occurs in \<open>s\<close> as a contiguous run.\<close>
  "includes_str s sub = sublist sub s"

definition startsWith :: "string \<Rightarrow> string \<Rightarrow> bool" where
  \<comment> \<open>\<^verbatim>\<open>s.startsWith(p)\<close>\<close>
  "startsWith s p = prefix p s"

definition endsWith :: "string \<Rightarrow> string \<Rightarrow> bool" where
  \<comment> \<open>\<^verbatim>\<open>s.endsWith(p)\<close>\<close>
  "endsWith s p = suffix p s"

fun split :: "char \<Rightarrow> string \<Rightarrow> string list" where
  \<comment> \<open>\<^verbatim>\<open>s.split(sep)\<close> for a one-character separator and no limit: the pieces
      between the separators, \<^verbatim>\<open>[""]\<close> for the empty string.\<close>
  "split sep [] = [[]]"
| "split sep (c # cs) =
     (if c = sep then [] # split sep cs
      else (case split sep cs of
              p # ps \<Rightarrow> (c # p) # ps
            | [] \<Rightarrow> [[c]]))"

subsection \<open>Platform detection and URL cleaning\<close>

datatype platform = Instagram | Tiktok | Unknown

fun detectPlatform :: "string \<Rightarrow> platform" where
  "detectPlatform url =
     (if includes_str url ''tiktok.com'' then Tiktok
      else if includes_str url ''instagram.com'' then Instagram
      else Unknown)"

definition cleanInstagramUrl :: "string \<Rightarrow> string" where
  \<comment> \<open>\<^verbatim>\<open>url.split('?')[0]\<close> for a URL with \<^verbatim>\<open>instagram.com\<close> in it; element 0 of a
      split always exists.\<close>
  "cleanInstagramUrl url =
     (if includes_str url ''instagram.com'' then hd (split CHR ''?'' url) else url)"

subsection \<open>JavaScript values\<close>

text \<open>
  The probe's output is parsed by \<^verbatim>\<open>JSON.parse\<close> and then read as \<^verbatim>\<open>any\<close>, so the
  model keeps untyped values. A number is an IEEE double: a finite one is the rational it
  denotes; \<^verbatim>\<open>JSON.parse\<close> yields an infinity for a literal that overflows. An object
  is the list of its properties, each key once.
\<close>

datatype number = NaN | NegInfinity | Finite rat | PosInfinity

datatype jsval =
    Undefined
  | Null
  | JBool bool
  | JNum number
  | JStr string
  | JArr "jsval list"
  | JObj "(string \<times> jsval) list"

datatype error =
    SpawnError string
      \<comment> \<open>the child emitted \<^verbatim>\<open>error\<close>: it could not be launched\<close>
  | CommandFailed "int option" string "string list" string
      \<comment> \<open>\<^verbatim>\<open>Command failed (code): command args\<close> and the captured stderr\<close>
  | TypeError
      \<comment> \<open>a property read on \<^verbatim>\<open>null\<close>/\<^verbatim>\<open>undefined\<close>, or a call of something
          that is not a function\<close>
  | FsError
      \<comment> \<open>\<^verbatim>\<open>readdirSync\<close> threw\<close>
  | DownloadedFileNotFound
      \<comment> \<open>\<^verbatim>\<open>new Error("Downloaded file not found")\<close>\<close>

fun truthy :: "jsval \<Rightarrow> bool" where
  "truthy Undefined = False"
| "truthy Null = False"
| "truthy (JBool b) = b"
| "truthy (JNum n) = (n \<noteq> NaN \<and> n \<noteq> Finite 0)"
| "truthy (JStr s) = (s \<noteq> [])"
| "truthy (JArr xs) = True"
| "truthy (JObj kvs) = True"

fun optGet :: "jsval \<Rightarrow> string \<Rightarrow> jsval" where
  \<comment> \<open>\<^verbatim>\<open>v?.k\<close>, for the property names the service reads: none of them is a
      built-in property of a string, a number, a boolean or an array.\<close>
  "optGet (JObj kvs) k = (case map_of kvs k of Some v \<Rightarrow> v | None \<Rightarrow> Undefined)"
| "optGet v k = Undefined"

fun get :: "jsval \<Rightarrow> string \<Rightarrow> error + jsval" where
  \<comment> \<open>\<^verbatim>\<open>v.k\<close>: a TypeError on \<^verbatim>\<open>null\<close> and \<^verbatim>\<open>undefined\<close>.\<close>
  "get Undefined k = Inl TypeError"
| "get Null k = Inl TypeError"
| "get v k = Inr (optGet v k)"

definition at_index :: "jsval list \<Rightarrow> int \<Rightarrow> jsval" where
  \<comment> \<open>\<^verbatim>\<open>xs[i]\<close>: \<^verbatim>\<open>undefined\<close> outside the array.\<close>
  "at_index xs i = (if 0 \<le> i \<and> i < int (length xs) then xs ! nat i else Undefined)"

definition js_or :: "jsval \<Rightarrow> jsval \<Rightarrow> jsval" where
  \<comment> \<open>\<^verbatim>\<open>a || b\<close>\<close>
  "js_or a b = (if truthy a then a else b)"

fun subSign :: "number \<Rightarrow> number \<Rightarrow> int" where
  \<comment> \<open>The sign of \<^verbatim>\<open>x - y\<close> as a sort sees it. The difference of two finite doubles
      has the sign of their exact difference; \<^verbatim>\<open>Infinity - Infinity\<close> is \<^verbatim>\<open>NaN\<close>, and a
      comparator result of \<^verbatim>\<open>NaN\<close> counts as 0.\<close>
  "subSign NaN y = 0"
| "subSign x NaN = 0"
| "subSign PosInfinity PosInfinity = 0"
| "subSign NegInfinity NegInfinity = 0"
| "subSign PosInfinity y = 1"
| "subSign x PosInfinity = - 1"
| "subSign NegInfinity y = - 1"
| "subSign x NegInfinity = 1"
| "subSign (Finite a) (Finite b) = (if a < b then - 1 else if a = b then 0 else 1)"

fun insertBy :: "('a \<Rightarrow> 'a \<Rightarrow> int) \<Rightarrow> 'a \<Rightarrow> 'a list \<Rightarrow> 'a list" where
  "insertBy cmp x [] = [x]"
| "insertBy cmp x (y # ys) =
     (if cmp x y \<le> 0 then x # y # ys else y # insertBy cmp x ys)"

definition sortBy :: "('a \<Rightarrow> 'a \<Rightarrow> int) \<Rightarrow> 'a list \<Rightarrow> 'a list" where
  \<comment> \<open>\<^verbatim>\<open>xs.sort(cmp)\<close>. The sort of the runtime is stable; for a consistent comparator
      its result is the one of this stable insertion sort. (For an inconsistent one the
      language leaves the order to the implementation.)\<close>
  "sortBy cmp xs = foldr (insertBy cmp) xs []"

fun filterE :: "('a \<Rightarrow> error + bool) \<Rightarrow> 'a list \<Rightarrow> error + 'a list" where
  \<comment> \<open>\<^verbatim>\<open>xs.filter(p)\<close> for a callback that may throw.\<close>
  "filterE p [] = Inr []"
| "filterE p (x # xs) =
     (case p x of
        Inl e \<Rightarrow> Inl e
      | Inr b \<Rightarrow>
          (case filterE p xs of
             Inl e \<Rightarrow> Inl e
           | Inr ys \<Rightarrow> Inr (if b then x # ys else ys)))"

subsection \<open>The runtime and the outside world\<close>

text \<open>
  What the service takes from Node and from the machine it runs on. \<open>'w\<close> is the state of
  the outside world (file system, network, installed programs); spawning a child and
  drawing a UUID change it.
\<close>

datatype child =
    EmitsError string
      \<comment> \<open>launching failed: the \<^verbatim>\<open>error\<close> event\<close>
  | Closes "int option" string string
      \<comment> \<open>the \<^verbatim>\<open>close\<close> event: exit code (none when killed by a signal), all of stdout,
          all of stderr\<close>

record spawn_options =
  cwd :: "string option"
  shell :: bool
  env :: "string \<Rightarrow> string option"

record 'w node =
  process_platform :: string
  process_env :: "string \<Rightarrow> string option"
  process_cwd :: string
  path_join :: "string list \<Rightarrow> string"
  path_resolve :: "string list \<Rightarrow> string"
  path_relative :: "string \<Rightarrow> string \<Rightarrow> string"
  JSON_parse :: "string \<Rightarrow> jsval option"
    \<comment> \<open>\<open>None\<close>: a SyntaxError\<close>
  ToNumber :: "jsval \<Rightarrow> number"
    \<comment> \<open>the coercion of a string, an array or an object to a number\<close>
  randomUUID :: "'w \<Rightarrow> string \<times> 'w"
  spawn :: "string \<Rightarrow> string list \<Rightarrow> spawn_options \<Rightarrow> 'w \<Rightarrow> child \<times> 'w"
  readdirSync :: "string \<Rightarrow> 'w \<Rightarrow> string list option"
    \<comment> \<open>\<open>None\<close>: the call throws (no such directory)\<close>
  Date_toISOString :: "'w \<Rightarrow> string"

record DownloadResult =
  id_uuid :: string
  platform :: platform
  inputUrl :: string
  videoPath :: string
  filename :: string
  thumbnailUrl :: jsval
  audioUrl :: jsval
  audioPath :: "string option"
  title :: jsval
  publishedAt :: jsval
  createdAt :: string

subsection \<open>Process Runner and Extractor Invoker\<close>

definition getAugmentedEnv :: "'w node \<Rightarrow> string \<Rightarrow> string option" where
  "getAugmentedEnv nd =
     (case process_env nd ''APPDATA'' of
        Some appData \<Rightarrow>
          if process_platform nd = ''win32'' \<and> appData \<noteq> [] then
            (let scriptsDir = path_join nd [appData, ''Python'', ''Python312'', ''Scripts''] in
             (process_env nd)(''PATH'' \<mapsto>
                (case process_env nd ''PATH'' of
                   Some p \<Rightarrow> if p \<noteq> [] then scriptsDir @ '';'' @ p else scriptsDir
                 | None \<Rightarrow> scriptsDir)))
          else process_env nd
      | None \<Rightarrow> process_env nd)"

fun winPath :: "string list \<Rightarrow> string" where
  \<comment> \<open>the components of a Windows path literal, joined by backslashes\<close>
  "winPath [] = []"
| "winPath [p] = p"
| "winPath (p # q # ps) = p @ [CHR 0x5C] @ winPath (q # ps)"

definition getPythonCommand :: "'w node \<Rightarrow> string" where
  "getPythonCommand nd =
     (if process_platform nd = ''win32''
      then winPath [''C:'', ''Users'', ''aditp'', ''AppData'', ''Local'', ''Microsoft'',
                    ''WindowsApps'', ''python.exe'']
      else ''python'')"

definition getFFmpegLocation :: "'w node \<Rightarrow> string" where
  "getFFmpegLocation nd =
     (if process_platform nd = ''win32''
      then winPath [''C:'', ''Users'', ''aditp'', ''AppData'', ''Local'', ''Microsoft'',
                    ''WinGet'', ''Packages'',
                    ''Gyan.FFmpeg_Microsoft.Winget.Source_8wekyb3d8bbwe'',
                    ''ffmpeg-8.0-full_build'', ''bin'']
      else [])"

definition run ::
  "'w node \<Rightarrow> string \<Rightarrow> string list \<Rightarrow> string option \<Rightarrow> 'w \<Rightarrow> (error + string \<times> string) \<times> 'w"
where
  \<comment> \<open>The promise settles on the first of the two events: rejected with the child's error,
      resolved on exit code 0, rejected with the \<^verbatim>\<open>Command failed\<close> error otherwise.\<close>
  "run nd command args dir w =
     (case spawn nd command args
             \<lparr>cwd = dir, shell = False, env = getAugmentedEnv nd\<rparr> w of
        (EmitsError e, w') \<Rightarrow> (Inl (SpawnError e), w')
      | (Closes code out err, w') \<Rightarrow>
          if code = Some 0 then (Inr (out, err), w')
          else (Inl (CommandFailed code command args err), w'))"

definition runYtDlpRaw ::
  "'w node \<Rightarrow> string list \<Rightarrow> string option \<Rightarrow> 'w \<Rightarrow> (error + string \<times> string) \<times> 'w"
where
  "runYtDlpRaw nd args dir w =
     (case run nd ''yt-dlp'' args dir w of
        (Inr r, w') \<Rightarrow> (Inr r, w')
      | (Inl _, w') \<Rightarrow>
          (let pythonCmd = getPythonCommand nd in
           run nd pythonCmd ([''-m'', ''yt_dlp''] @ args) dir w'))"

definition MODERN_UA :: string where
  "MODERN_UA =
     ''Mozilla/5.0 (Windows NT 10.0; Win64; x64) AppleWebKit/537.36 (KHTML, like Gecko) Chrome/127.0 Safari/537.36''"

definition tiktokArgs :: "string list" where
  \<comment> \<open>what the \<^verbatim>\<open>tiktok.com\<close> branch of \<^verbatim>\<open>buildCommonArgs\<close> pushes\<close>
  "tiktokArgs =
     [''--extractor-args'',
      ''tiktok:player_url=1,music_download=1,age_restricted=1,bypass_age_gate=1'',
      ''--no-check-certificates'',
      ''--ignore-errors'']"

definition instagramArgs :: "string list" where
  \<comment> \<open>what the \<^verbatim>\<open>instagram.com\<close> branch of \<^verbatim>\<open>buildCommonArgs\<close> pushes\<close>
  "instagramArgs =
     [''--referer'', ''https://www.instagram.com/'',
      ''--extractor-args'', ''instagram:api=1'',
      ''--sleep-requests'', ''3'',
      ''--sleep-interval'', ''3'',
      ''--no-check-certificates'',
      ''--ignore-errors'',
      ''--extractor-retries'', ''3'']"

definition buildCommonArgs :: "'w node \<Rightarrow> string \<Rightarrow> string list" where
  "buildCommonArgs nd url =
     (let base = [''--geo-bypass'', ''--user-agent'', MODERN_UA];
          ffmpegLocation = getFFmpegLocation nd;
          base = (if ffmpegLocation \<noteq> [] then base @ [''--ffmpeg-location'', ffmpegLocation]
                  else base);
          base = (if includes_str url ''tiktok.com'' then base @ tiktokArgs else base);
          base = (if includes_str url ''instagram.com'' then base @ instagramArgs else base)
      in base)"

definition runYtDlpWithFallbacks ::
  "'w node \<Rightarrow> string \<Rightarrow> string list \<Rightarrow> string option \<Rightarrow> 'w \<Rightarrow> (error + string \<times> string) \<times> 'w"
where
  "runYtDlpWithFallbacks nd url args dir w =
     (let common = buildCommonArgs nd url in runYtDlpRaw nd (common @ args) dir w)"

subsection \<open>Enrichment fields derived from the probe's metadata\<close>

definition selectThumbnailUrl :: "jsval \<Rightarrow> jsval" where
  \<comment> \<open>\<^verbatim>\<open>Array.isArray(metadata?.thumbnails)
        ? metadata.thumbnails[metadata.thumbnails.length - 1]?.url : metadata?.thumbnail\<close>\<close>
  "selectThumbnailUrl metadata =
     (case optGet metadata ''thumbnails'' of
        JArr ts \<Rightarrow> optGet (at_index ts (int (length ts) - 1)) ''url''
      | _ \<Rightarrow> optGet metadata ''thumbnail'')"

definition isAudioOnly :: "jsval \<Rightarrow> error + bool" where
  \<comment> \<open>the filter callback \<^verbatim>\<open>f.acodec && f.vcodec === "none"\<close>, by its truthiness\<close>
  "isAudioOnly f =
     (case get f ''acodec'' of
        Inl e \<Rightarrow> Inl e
      | Inr a \<Rightarrow>
          if truthy a then
            (case get f ''vcodec'' of
               Inl e \<Rightarrow> Inl e
             | Inr v \<Rightarrow> Inr (v = JStr ''none''))
          else Inr False)"

fun toNumber :: "'w node \<Rightarrow> jsval \<Rightarrow> number" where
  "toNumber nd (JNum n) = n"
| "toNumber nd Undefined = NaN"
| "toNumber nd Null = Finite 0"
| "toNumber nd (JBool b) = Finite (if b then 1 else 0)"
| "toNumber nd v = ToNumber nd v"

definition abrOrZero :: "'w node \<Rightarrow> jsval \<Rightarrow> number" where
  \<comment> \<open>\<^verbatim>\<open>f.abr || 0\<close> as the subtraction reads it; \<open>f\<close> has passed the filter, so the
      property read does not throw.\<close>
  "abrOrZero nd f =
     (let v = optGet f ''abr'' in if truthy v then toNumber nd v else Finite 0)"

definition compareAbr :: "'w node \<Rightarrow> jsval \<Rightarrow> jsval \<Rightarrow> int" where
  \<comment> \<open>the sort callback \<^verbatim>\<open>(a, b) => (b.abr || 0) - (a.abr || 0)\<close>, by its sign\<close>
  "compareAbr nd a b = subSign (abrOrZero nd b) (abrOrZero nd a)"

definition formatsAudioUrl :: "'w node \<Rightarrow> jsval \<Rightarrow> error + jsval" where
  \<comment> \<open>\<^verbatim>\<open>audioUrl\<close> after the \<^verbatim>\<open>if (metadata?.formats)\<close> block. A truthy \<^verbatim>\<open>formats\<close>
      that is not an array has no \<^verbatim>\<open>filter\<close> to call.\<close>
  "formatsAudioUrl nd metadata =
     (if truthy (optGet metadata ''formats'') then
        (case optGet metadata ''formats'' of
           JArr fs \<Rightarrow>
             (case filterE isAudioOnly fs of
                Inl e \<Rightarrow> Inl e
              | Inr kept \<Rightarrow>
                  (case sortBy (compareAbr nd) kept of
                     [] \<Rightarrow> Inr Undefined
                   | f # _ \<Rightarrow> Inr (optGet f ''url'')))
         | _ \<Rightarrow> Inl TypeError)
      else Inr Undefined)"

definition firstIfArray :: "jsval \<Rightarrow> jsval" where
  \<comment> \<open>\<^verbatim>\<open>Array.isArray(x) ? x[0] : undefined\<close>\<close>
  "firstIfArray x = (case x of JArr xs \<Rightarrow> at_index xs 0 | _ \<Rightarrow> Undefined)"

definition isHttpString :: "jsval \<Rightarrow> bool" where
  \<comment> \<open>\<^verbatim>\<open>typeof u === "string" && u.startsWith("http")\<close>\<close>
  "isHttpString u = (case u of JStr s \<Rightarrow> startsWith s ''http'' | _ \<Rightarrow> False)"

definition tiktokMusicUrl :: "jsval \<Rightarrow> jsval" where
  \<comment> \<open>the body of \<^verbatim>\<open>if (!audioUrl && platform === "tiktok")\<close>\<close>
  "tiktokMusicUrl metadata =
     (let music = js_or (js_or (optGet metadata ''music'') (optGet metadata ''track''))
                        (optGet metadata ''song'');
          candidates =
            [optGet music ''playUrl'',
             optGet music ''downloadUrl'',
             optGet music ''url'',
             firstIfArray (optGet music ''playUrl''),
             firstIfArray (optGet music ''downloadUrl''),
             firstIfArray (optGet music ''url'')]
      in (case find isHttpString candidates of Some u \<Rightarrow> u | None \<Rightarrow> Undefined))"

definition selectAudioUrl :: "'w node \<Rightarrow> platform \<Rightarrow> jsval \<Rightarrow> error + jsval" where
  "selectAudioUrl nd pf metadata =
     (case formatsAudioUrl nd metadata of
        Inl e \<Rightarrow> Inl e
      | Inr fromFormats \<Rightarrow>
          if \<not> truthy fromFormats \<and> pf = Tiktok then Inr (tiktokMusicUrl metadata)
          else Inr fromFormats)"

record enrichment =
  en_title :: jsval
  en_thumbnailUrl :: jsval
  en_publishedAt :: jsval
  en_audioUrl :: jsval

definition deriveEnrichment :: "'w node \<Rightarrow> platform \<Rightarrow> jsval \<Rightarrow> error + enrichment" where
  "deriveEnrichment nd pf metadata =
     (case selectAudioUrl nd pf metadata of
        Inl e \<Rightarrow> Inl e
      | Inr a \<Rightarrow>
          Inr \<lparr>en_title = optGet metadata ''title'',
               en_thumbnailUrl = selectThumbnailUrl metadata,
               en_publishedAt = optGet metadata ''upload_date'',
               en_audioUrl = a\<rparr>)"

subsection \<open>Download Orchestrator\<close>

definition downloadsDir :: "'w node \<Rightarrow> string" where
  "downloadsDir nd = path_resolve nd [process_cwd nd, ''downloads'']"

definition audiosDir :: "'w node \<Rightarrow> string" where
  "audiosDir nd = path_resolve nd [process_cwd nd, ''audios'']"

definition outputTemplate :: "'w node \<Rightarrow> string \<Rightarrow> string" where
  "outputTemplate nd ident = path_join nd [downloadsDir nd, ident @ ''-%(title)s.%(ext)s'']"

definition audioTemplate :: "'w node \<Rightarrow> string \<Rightarrow> string" where
  "audioTemplate nd ident = path_join nd [audiosDir nd, ident @ ''-audio.%(ext)s'']"

definition probeArgs :: "string \<Rightarrow> string list" where
  "probeArgs cleanUrl = [''-J'', ''--no-playlist'', cleanUrl]"

definition videoArgs :: "'w node \<Rightarrow> string \<Rightarrow> string \<Rightarrow> string list" where
  "videoArgs nd ident cleanUrl =
     [''-f'', ''bv*+ba/best'', ''--remux-video'', ''mp4'', ''-o'', outputTemplate nd ident, cleanUrl]"

definition audioArgs :: "'w node \<Rightarrow> string \<Rightarrow> string \<Rightarrow> string list" where
  "audioArgs nd ident cleanUrl =
     [''-x'', ''--audio-format'', ''mp3'', ''--audio-quality'', ''0'',
      ''-o'', audioTemplate nd ident, cleanUrl]"

definition parseMetadata :: "'w node \<Rightarrow> string \<Rightarrow> jsval" where
  \<comment> \<open>\<^verbatim>\<open>try { metadata = JSON.parse(jsonStdout); } catch { metadata = undefined; }\<close>\<close>
  "parseMetadata nd jsonStdout =
     (case JSON_parse nd jsonStdout of Some v \<Rightarrow> v | None \<Rightarrow> Undefined)"

definition isVideoOf :: "string \<Rightarrow> string \<Rightarrow> bool" where
  \<comment> \<open>\<^verbatim>\<open>f.startsWith(id + "-")\<close>\<close>
  "isVideoOf ident f = startsWith f (ident @ ''-'')"

definition isAudioOf :: "string \<Rightarrow> string \<Rightarrow> bool" where
  \<comment> \<open>\<^verbatim>\<open>f.startsWith(id + "-audio") && f.endsWith(".mp3")\<close>\<close>
  "isAudioOf ident f = (startsWith f (ident @ ''-audio'') \<and> endsWith f ''.mp3'')"

definition extractAudioAndAssemble ::
  "'w node \<Rightarrow> string \<Rightarrow> string \<Rightarrow> platform \<Rightarrow> string \<Rightarrow> enrichment \<Rightarrow> string \<Rightarrow> 'w
     \<Rightarrow> (error + DownloadResult) \<times> 'w"
where
  \<comment> \<open>from the audio extraction to the returned record; \<open>file\<close> is the video file found\<close>
  "extractAudioAndAssemble nd url ident pf cleanUrl en file w =
     (let videoFull = path_join nd [downloadsDir nd, file] in
      case runYtDlpWithFallbacks nd cleanUrl (audioArgs nd ident cleanUrl) None w of
        (Inl e, w') \<Rightarrow> (Inl e, w')
      | (Inr _, w') \<Rightarrow>
          (case readdirSync nd (audiosDir nd) w' of
             None \<Rightarrow> (Inl FsError, w')
           | Some listing \<Rightarrow>
               (let audioFile = find (isAudioOf ident) listing;
                    audioFull =
                      (case audioFile of
                         Some f \<Rightarrow> if f \<noteq> [] then Some (path_join nd [audiosDir nd, f]) else None
                       | None \<Rightarrow> None)
                in (Inr \<lparr>id_uuid = ident,
                         platform = pf,
                         inputUrl = url,
                         videoPath = path_relative nd (process_cwd nd) videoFull,
                         filename = file,
                         thumbnailUrl = en_thumbnailUrl en,
                         audioUrl = en_audioUrl en,
                         audioPath =
                           (case audioFull of
                              Some p \<Rightarrow>
                                if p \<noteq> [] then Some (path_relative nd (process_cwd nd) p)
                                else None
                            | None \<Rightarrow> None),
                         title = en_title en,
                         publishedAt = en_publishedAt en,
                         createdAt = Date_toISOString nd w'\<rparr>, w'))))"

definition fetchVideo ::
  "'w node \<Rightarrow> string \<Rightarrow> string \<Rightarrow> platform \<Rightarrow> string \<Rightarrow> enrichment \<Rightarrow> 'w
     \<Rightarrow> (error + DownloadResult) \<times> 'w"
where
  \<comment> \<open>from the video fetch on\<close>
  "fetchVideo nd url ident pf cleanUrl en w =
     (case runYtDlpWithFallbacks nd cleanUrl (videoArgs nd ident cleanUrl) None w of
        (Inl e, w') \<Rightarrow> (Inl e, w')
      | (Inr _, w') \<Rightarrow>
          (case readdirSync nd (downloadsDir nd) w' of
             None \<Rightarrow> (Inl FsError, w')
           | Some listing \<Rightarrow>
               (case filter (isVideoOf ident) listing of
                  [] \<Rightarrow> (Inl DownloadedFileNotFound, w')
                | file # _ \<Rightarrow> extractAudioAndAssemble nd url ident pf cleanUrl en file w')))"

definition downloadVideoAndExtractAudio ::
  "'w node \<Rightarrow> string \<Rightarrow> 'w \<Rightarrow> (error + DownloadResult) \<times> 'w"
where
  "downloadVideoAndExtractAudio nd url w =
     (case randomUUID nd w of
        (ident, w0) \<Rightarrow>
          (let pf = detectPlatform url;
               cleanUrl = cleanInstagramUrl url
           in case runYtDlpWithFallbacks nd cleanUrl (probeArgs cleanUrl) None w0 of
                (Inl e, w1) \<Rightarrow> (Inl e, w1)
              | (Inr (jsonStdout, _), w1) \<Rightarrow>
                  (case deriveEnrichment nd pf (parseMetadata nd jsonStdout) of
                     Inl e \<Rightarrow> (Inl e, w1)
                   | Inr en \<Rightarrow> fetchVideo nd url ident pf cleanUrl en w1)))"

subsection \<open>Observing the commands a run launches\<close>

text \<open>
  To state which commands a run launches, the same runtime is observed: the world is
  paired with the list of the commands spawned so far, and nothing else changes.
\<close>

type_synonym call = "string \<times> string list"

definition recording :: "'w node \<Rightarrow> ('w \<times> call list) node" where
  "recording nd =
     \<lparr>process_platform = process_platform nd,
      process_env = process_env nd,
      process_cwd = process_cwd nd,
      path_join = path_join nd,
      path_resolve = path_resolve nd,
      path_relative = path_relative nd,
      JSON_parse = JSON_parse nd,
      ToNumber = ToNumber nd,
      randomUUID = (\<lambda>(w, calls). case randomUUID nd w of (u, w') \<Rightarrow> (u, (w', calls))),
      spawn = (\<lambda>command args opts (w, calls).
                 case spawn nd command args opts w of
                   (c, w') \<Rightarrow> (c, (w', calls @ [(command, args)]))),
      readdirSync = (\<lambda>dir (w, calls). readdirSync nd dir w),
      Date_toISOString = (\<lambda>(w, calls). Date_toISOString nd w)\<rparr>"

subsection \<open>A scripted runtime for concrete runs\<close>

text \<open>
  A small concrete runtime: the world is the number of children spawned so far, the
  children behave as a script says, directories and the JSON parser are given as tables.
\<close>

fun joinSlash :: "string list \<Rightarrow> string" where
  "joinSlash [] = ''.''"
| "joinSlash [p] = p"
| "joinSlash (p # q # ps) = p @ ''/'' @ joinSlash (q # ps)"

definition scripted ::
  "child list \<Rightarrow> (string \<times> jsval) list \<Rightarrow> (string \<times> string list) list \<Rightarrow> nat node"
where
  "scripted script parses dirs =
     \<lparr>process_platform = ''linux'',
      process_env = Map.empty,
      process_cwd = ''/app'',
      path_join = joinSlash,
      path_resolve = joinSlash,
      path_relative = (\<lambda>from to. drop (length from + 1) to),
      JSON_parse = map_of parses,
      ToNumber = (\<lambda>v. NaN),
      randomUUID = (\<lambda>n. (''7f3a'', n)),
      spawn = (\<lambda>command args opts n.
                 (if n < length script then script ! n else EmitsError ''ENOENT'', Suc n)),
      readdirSync = (\<lambda>dir n. map_of dirs dir),
      Date_toISOString = (\<lambda>n. ''2024-05-01T12:00:00.000Z'')\<rparr>"

subsection \<open>Notions used to state the properties\<close>

definition declaresAudioOnly :: "jsval \<Rightarrow> bool" where
  \<comment> \<open>an entry that declares an audio codec and no video codec; the extractor writes
      \<^verbatim>\<open>"none"\<close> for a codec that is absent\<close>
  "declaresAudioOnly f =
     (truthy (optGet f ''acodec'') \<and> optGet f ''acodec'' \<noteq> JStr ''none''
      \<and> optGet f ''vcodec'' = JStr ''none'')"

definition bitrate :: "'w node \<Rightarrow> jsval \<Rightarrow> rat" where
  \<comment> \<open>the bitrate of an entry whose \<^verbatim>\<open>abr || 0\<close> is a finite number\<close>
  "bitrate nd f = (case abrOrZero nd f of Finite r \<Rightarrow> r | _ \<Rightarrow> 0)"

definition baseArgs :: "'w node \<Rightarrow> string list" where
  \<comment> \<open>the arguments \<^verbatim>\<open>buildCommonArgs\<close> gives every URL\<close>
  "baseArgs nd =
     [''--geo-bypass'', ''--user-agent'', MODERN_UA]
     @ (if getFFmpegLocation nd \<noteq> [] then [''--ffmpeg-location'', getFFmpegLocation nd] else [])"

definition platformArgs :: "platform \<Rightarrow> string list" where
  \<comment> \<open>the flag set of a platform\<close>
  "platformArgs pf =
     (case pf of Tiktok \<Rightarrow> tiktokArgs | Instagram \<Rightarrow> instagramArgs | Unknown \<Rightarrow> [])"

definition invocationOf :: "'w node \<Rightarrow> string \<Rightarrow> string list \<Rightarrow> call \<Rightarrow> bool" where
  \<comment> \<open>\<open>c\<close> is one of the two commands \<^verbatim>\<open>runYtDlpWithFallbacks(u, a)\<close> may launch\<close>
  "invocationOf nd u a c =
     (c = (''yt-dlp'', buildCommonArgs nd u @ a)
      \<or> c = (getPythonCommand nd, [''-m'', ''yt_dlp''] @ buildCommonArgs nd u @ a))"

definition noEnrichment :: enrichment where
  \<comment> \<open>every enrichment field unset\<close>
  "noEnrichment =
     \<lparr>en_title = Undefined, en_thumbnailUrl = Undefined, en_publishedAt = Undefined,
      en_audioUrl = Undefined\<rparr>"

definition rederivedArgs :: "string \<Rightarrow> string list" where
  \<comment> \<open>the flag sets \<^verbatim>\<open>buildCommonArgs\<close> derives from the URL it is given, by its two
      substring tests\<close>
  "rederivedArgs u =
     (if includes_str u ''tiktok.com'' then tiktokArgs else [])
     @ (if includes_str u ''instagram.com'' then instagramArgs else [])"

definition launchOf :: "'w node \<Rightarrow> string list \<Rightarrow> string list \<Rightarrow> call \<Rightarrow> bool" where
  \<comment> \<open>\<open>c\<close> is the executable or the module invocation, with exactly the common arguments
      \<open>common\<close> followed by the arguments \<open>a\<close>\<close>
  "launchOf nd common a c =
     (c = (''yt-dlp'', common @ a)
      \<or> c = (getPythonCommand nd, [''-m'', ''yt_dlp''] @ common @ a))"

definition launchedWith :: "'w node \<Rightarrow> string list \<Rightarrow> string \<Rightarrow> string \<Rightarrow> call \<Rightarrow> bool" where
  \<comment> \<open>\<open>c\<close> is a probe, a video-fetch or an audio-extraction command of the run with
      identifier \<open>ident\<close> on the cleaned URL \<open>cu\<close>, with exactly the common arguments
      \<open>common\<close>\<close>
  "launchedWith nd common ident cu c =
     (launchOf nd common (probeArgs cu) c
      \<or> launchOf nd common (videoArgs nd ident cu) c
      \<or> launchOf nd common (audioArgs nd ident cu) c)"

subsection \<open>Concrete inputs\<close>

definition exits0 :: "string \<Rightarrow> child" where
  \<comment> \<open>a child that prints \<open>out\<close> and exits with code 0\<close>
  "exits0 out = Closes (Some 0) out []"

definition videoFound :: "(string \<times> string list) list" where
  "videoFound =
     [(''/app/downloads'', [''0b1c-older.mp4'', ''7f3a-clip.mp4'']),
      (''/app/audios'', [''0b1c-audio.mp3'', ''7f3a-audio.webm''])]"

definition videoMissing :: "(string \<times> string list) list" where
  "videoMissing =
     [(''/app/downloads'', [''0b1c-older.mp4'', ''7f3a.part'']),
      (''/app/audios'', [])]"

definition entry :: "string \<Rightarrow> rat \<Rightarrow> string \<Rightarrow> jsval" where
  \<comment> \<open>an audio-only format entry\<close>
  "entry codec r u =
     JObj [(''acodec'', JStr codec), (''vcodec'', JStr ''none''), (''abr'', JNum (Finite r)),
           (''url'', JStr u)]"

definition probedFormats :: "jsval list" where
  "probedFormats =
     [entry ''mp4a.40.5'' 64 ''https://cdn.example/a64'',
      JObj [(''acodec'', JStr ''mp4a.40.2''), (''vcodec'', JStr ''h264''),
            (''url'', JStr ''https://cdn.example/v'')],
      entry ''mp4a.40.2'' 128 ''https://cdn.example/a128'',
      entry ''opus'' 96 ''https://cdn.example/a96'']"

definition probed :: jsval where
  "probed = JObj [(''title'', JStr ''clip''), (''formats'', JArr probedFormats)]"

definition musicOnly :: jsval where
  \<comment> \<open>a probe without formats that names a music URL\<close>
  "musicOnly =
     JObj [(''title'', JStr ''clip''),
           (''music'', JObj [(''playUrl'', JStr ''https://sf16.example/music.mp3'')])]"

subsection \<open>Facts about the string operations\<close>

lemma split_not_Nil: "split sep s \<noteq> []"
  by (induction s) (auto split: list.splits)

lemma hd_split: "hd (split sep s) = takeWhile (\<lambda>c. c \<noteq> sep) s"
proof (induction s)
  case Nil
  show ?case by simp
next
  case (Cons c cs)
  then show ?case
    using split_not_Nil [of sep cs] by (cases "split sep cs") auto
qed

lemma includes_str_iff: "includes_str s sub \<longleftrightarrow> (\<exists>p q. s = p @ sub @ q)"
  by (simp add: includes_str_def sublist_def)

subsection \<open>Facts about filtering and sorting the formats\<close>

lemma isAudioOnly_entry:
  "f \<noteq> Null \<Longrightarrow> f \<noteq> Undefined \<Longrightarrow>
   isAudioOnly f = Inr (truthy (optGet f ''acodec'') \<and> optGet f ''vcodec'' = JStr ''none'')"
  by (cases f) (simp_all add: isAudioOnly_def)

lemma filterE_isAudioOnly:
  "\<forall>f\<in>set fs. f \<noteq> Null \<and> f \<noteq> Undefined
              \<and> \<not> (optGet f ''acodec'' = JStr ''none'' \<and> optGet f ''vcodec'' = JStr ''none'')
   \<Longrightarrow> filterE isAudioOnly fs = Inr (filter declaresAudioOnly fs)"
  by (induction fs) (auto simp: isAudioOnly_entry declaresAudioOnly_def)

lemma insertBy_not_Nil: "insertBy cmp x ys \<noteq> []"
  by (cases ys) simp_all

lemma sortBy_Cons: "sortBy cmp (x # xs) = insertBy cmp x (sortBy cmp xs)"
  by (simp add: sortBy_def)

lemma sortBy_Nil_iff: "sortBy cmp xs = [] \<longleftrightarrow> xs = []"
  by (cases xs) (simp_all add: sortBy_def insertBy_not_Nil)

lemma compareAbr_le:
  assumes "abrOrZero nd a = Finite ka" and "abrOrZero nd b = Finite kb"
  shows "compareAbr nd a b \<le> 0 \<longleftrightarrow> bitrate nd b \<le> bitrate nd a"
  using assms by (simp add: compareAbr_def bitrate_def)

text \<open>
  The head of the sorted list is the first entry of the greatest bitrate: no entry has a
  greater one, and every entry before it has a smaller one.
\<close>

lemma hd_sortBy_first_max:
  assumes "xs \<noteq> []" and "\<forall>x\<in>set xs. \<exists>r. abrOrZero nd x = Finite r"
  shows "\<exists>i<length xs. hd (sortBy (compareAbr nd) xs) = xs ! i
           \<and> (\<forall>j<length xs. bitrate nd (xs ! j) \<le> bitrate nd (xs ! i))
           \<and> (\<forall>j<i. bitrate nd (xs ! j) < bitrate nd (xs ! i))"
  using assms
proof (induction xs)
  case Nil
  then show ?case by simp
next
  case (Cons x xs)
  show ?case
  proof (cases "xs = []")
    case True
    then show ?thesis by (simp add: sortBy_def)
  next
    case False
    with Cons obtain i where i: "i < length xs"
      and hdi: "hd (sortBy (compareAbr nd) xs) = xs ! i"
      and mx: "\<forall>j<length xs. bitrate nd (xs ! j) \<le> bitrate nd (xs ! i)"
      and before: "\<forall>j<i. bitrate nd (xs ! j) < bitrate nd (xs ! i)"
      by auto
    from False have ne: "sortBy (compareAbr nd) xs \<noteq> []"
      by (simp add: sortBy_Nil_iff)
    from Cons.prems obtain kx where kx: "abrOrZero nd x = Finite kx" by auto
    from Cons.prems i obtain kh where kh: "abrOrZero nd (xs ! i) = Finite kh"
      by (metis list.set_intros(2) nth_mem)
    have hd_eq: "hd (sortBy (compareAbr nd) (x # xs)) =
                   (if bitrate nd (xs ! i) \<le> bitrate nd x then x else xs ! i)"
      using ne hdi compareAbr_le [OF kx kh]
      by (cases "sortBy (compareAbr nd) xs") (simp_all add: sortBy_Cons)
    show ?thesis
    proof (cases "bitrate nd (xs ! i) \<le> bitrate nd x")
      case True
      have "\<forall>j<length (x # xs). bitrate nd ((x # xs) ! j) \<le> bitrate nd x"
      proof (intro allI impI)
        fix j assume "j < length (x # xs)"
        then show "bitrate nd ((x # xs) ! j) \<le> bitrate nd x"
          using mx True by (cases j) (auto intro: order_trans)
      qed
      with True hd_eq show ?thesis
        by (intro exI [of _ 0]) simp
    next
      case False
      then have lt: "bitrate nd x < bitrate nd (xs ! i)" by simp
      have a: "\<forall>j<length (x # xs). bitrate nd ((x # xs) ! j) \<le> bitrate nd (xs ! i)"
      proof (intro allI impI)
        fix j assume "j < length (x # xs)"
        then show "bitrate nd ((x # xs) ! j) \<le> bitrate nd (xs ! i)"
          using mx lt by (cases j) auto
      qed
      have b: "\<forall>j<Suc i. bitrate nd ((x # xs) ! j) < bitrate nd (xs ! i)"
      proof (intro allI impI)
        fix j assume "j < Suc i"
        then show "bitrate nd ((x # xs) ! j) < bitrate nd (xs ! i)"
          using before lt by (cases j) auto
      qed
      from False hd_eq i a b show ?thesis
        by (intro exI [of _ "Suc i"]) simp
    qed
  qed
qed

subsection \<open>Facts about the Process Runner\<close>

lemma run_resolves:
  "spawn nd c a \<lparr>cwd = dir, shell = False, env = getAugmentedEnv nd\<rparr> w
     = (Closes (Some 0) out err, w1) \<Longrightarrow> run nd c a dir w = (Inr (out, err), w1)"
  by (simp add: run_def)

lemma run_rejects_launch:
  "spawn nd c a \<lparr>cwd = dir, shell = False, env = getAugmentedEnv nd\<rparr> w
     = (EmitsError e, w1) \<Longrightarrow> run nd c a dir w = (Inl (SpawnError e), w1)"
  by (simp add: run_def)

lemma run_rejects_exit:
  "spawn nd c a \<lparr>cwd = dir, shell = False, env = getAugmentedEnv nd\<rparr> w
     = (Closes code out err, w1) \<Longrightarrow> code \<noteq> Some 0
   \<Longrightarrow> run nd c a dir w = (Inl (CommandFailed code c a err), w1)"
  by (simp add: run_def)

subsection \<open>The observed runtime behaves as the runtime it observes\<close>

lemma recording_simps [simp]:
  "process_platform (recording nd) = process_platform nd"
  "process_env (recording nd) = process_env nd"
  "process_cwd (recording nd) = process_cwd nd"
  "path_join (recording nd) = path_join nd"
  "path_resolve (recording nd) = path_resolve nd"
  "path_relative (recording nd) = path_relative nd"
  "JSON_parse (recording nd) = JSON_parse nd"
  "ToNumber (recording nd) = ToNumber nd"
  "readdirSync (recording nd) d (w, cs) = readdirSync nd d w"
  "Date_toISOString (recording nd) (w, cs) = Date_toISOString nd w"
  "randomUUID (recording nd) (w, cs) = (fst (randomUUID nd w), (snd (randomUUID nd w), cs))"
  "spawn (recording nd) c a opts (w, cs) =
     (fst (spawn nd c a opts w), (snd (spawn nd c a opts w), cs @ [(c, a)]))"
  by (simp_all add: recording_def split: prod.splits)

lemma getAugmentedEnv_recording [simp]: "getAugmentedEnv (recording nd) = getAugmentedEnv nd"
  by (simp add: getAugmentedEnv_def Let_def split: option.splits)

lemma getPythonCommand_recording [simp]: "getPythonCommand (recording nd) = getPythonCommand nd"
  by (simp add: getPythonCommand_def)

lemma buildCommonArgs_recording [simp]: "buildCommonArgs (recording nd) u = buildCommonArgs nd u"
  by (simp add: buildCommonArgs_def getFFmpegLocation_def)

lemma run_recording:
  "run (recording nd) c a dir (w, cs) =
     (fst (run nd c a dir w), (snd (run nd c a dir w), cs @ [(c, a)]))"
  by (simp add: run_def split: prod.splits child.splits)

lemma runYtDlpRaw_recording:
  "\<exists>new. runYtDlpRaw (recording nd) a dir (w, cs) =
           (fst (runYtDlpRaw nd a dir w), (snd (runYtDlpRaw nd a dir w), cs @ new))
         \<and> (new = [(''yt-dlp'', a)]
            \<or> new = [(''yt-dlp'', a), (getPythonCommand nd, [''-m'', ''yt_dlp''] @ a)])"
  by (cases "run nd ''yt-dlp'' a dir w"; cases "fst (run nd ''yt-dlp'' a dir w)")
     (auto simp: runYtDlpRaw_def run_recording)

lemma runYtDlpWithFallbacks_recording:
  "\<exists>new. runYtDlpWithFallbacks (recording nd) u a dir (w, cs) =
           (fst (runYtDlpWithFallbacks nd u a dir w),
            (snd (runYtDlpWithFallbacks nd u a dir w), cs @ new))
         \<and> (\<forall>c\<in>set new. invocationOf nd u a c)
         \<and> (''yt-dlp'', buildCommonArgs nd u @ a) \<in> set new"
  using runYtDlpRaw_recording [of nd "buildCommonArgs nd u @ a" dir w cs]
  by (auto simp: runYtDlpWithFallbacks_def invocationOf_def)

lemma toNumber_recording [simp]: "toNumber (recording nd) v = toNumber nd v"
  by (cases v) simp_all

lemma compareAbr_recording [simp]: "compareAbr (recording nd) = compareAbr nd"
  by (simp add: fun_eq_iff compareAbr_def abrOrZero_def Let_def)

lemma deriveEnrichment_recording [simp]:
  "deriveEnrichment (recording nd) pf md = deriveEnrichment nd pf md"
  unfolding deriveEnrichment_def selectAudioUrl_def formatsAudioUrl_def compareAbr_recording ..

lemma dirs_recording [simp]:
  "downloadsDir (recording nd) = downloadsDir nd"
  "audiosDir (recording nd) = audiosDir nd"
  "outputTemplate (recording nd) ident = outputTemplate nd ident"
  "audioTemplate (recording nd) ident = audioTemplate nd ident"
  "videoArgs (recording nd) ident cu = videoArgs nd ident cu"
  "audioArgs (recording nd) ident cu = audioArgs nd ident cu"
  "parseMetadata (recording nd) out = parseMetadata nd out"
  by (simp_all add: downloadsDir_def audiosDir_def outputTemplate_def audioTemplate_def
        videoArgs_def audioArgs_def parseMetadata_def)

lemma extractAudioAndAssemble_recording:
  "\<exists>new. extractAudioAndAssemble (recording nd) url ident pf cu en vfile (w, cs) =
           (fst (extractAudioAndAssemble nd url ident pf cu en vfile w),
            (snd (extractAudioAndAssemble nd url ident pf cu en vfile w), cs @ new))
         \<and> (\<forall>c\<in>set new. invocationOf nd cu (audioArgs nd ident cu) c)"
proof -
  obtain new where
    r: "runYtDlpWithFallbacks (recording nd) cu (audioArgs nd ident cu) None (w, cs) =
          (fst (runYtDlpWithFallbacks nd cu (audioArgs nd ident cu) None w),
           (snd (runYtDlpWithFallbacks nd cu (audioArgs nd ident cu) None w), cs @ new))"
    and n: "\<forall>c\<in>set new. invocationOf nd cu (audioArgs nd ident cu) c"
    using runYtDlpWithFallbacks_recording [of nd cu "audioArgs nd ident cu" None w cs] by blast
  obtain res w' where p: "runYtDlpWithFallbacks nd cu (audioArgs nd ident cu) None w = (res, w')"
    by (cases "runYtDlpWithFallbacks nd cu (audioArgs nd ident cu) None w")
  have "extractAudioAndAssemble (recording nd) url ident pf cu en vfile (w, cs) =
           (fst (extractAudioAndAssemble nd url ident pf cu en vfile w),
            (snd (extractAudioAndAssemble nd url ident pf cu en vfile w), cs @ new))"
    using r p
    by (cases res; cases "readdirSync nd (audiosDir nd) w'")
       (simp_all add: extractAudioAndAssemble_def Let_def split: option.splits)
  with n show ?thesis by blast
qed

lemma fetchVideo_recording:
  "\<exists>new. fetchVideo (recording nd) url ident pf cu en (w, cs) =
           (fst (fetchVideo nd url ident pf cu en w),
            (snd (fetchVideo nd url ident pf cu en w), cs @ new))
         \<and> (\<forall>c\<in>set new. invocationOf nd cu (videoArgs nd ident cu) c
                         \<or> invocationOf nd cu (audioArgs nd ident cu) c)
         \<and> (''yt-dlp'', buildCommonArgs nd cu @ videoArgs nd ident cu) \<in> set new"
proof -
  obtain new where
    r: "runYtDlpWithFallbacks (recording nd) cu (videoArgs nd ident cu) None (w, cs) =
          (fst (runYtDlpWithFallbacks nd cu (videoArgs nd ident cu) None w),
           (snd (runYtDlpWithFallbacks nd cu (videoArgs nd ident cu) None w), cs @ new))"
    and n: "\<forall>c\<in>set new. invocationOf nd cu (videoArgs nd ident cu) c"
    and m: "(''yt-dlp'', buildCommonArgs nd cu @ videoArgs nd ident cu) \<in> set new"
    using runYtDlpWithFallbacks_recording [of nd cu "videoArgs nd ident cu" None w cs] by blast
  obtain res w' where p: "runYtDlpWithFallbacks nd cu (videoArgs nd ident cu) None w = (res, w')"
    by (cases "runYtDlpWithFallbacks nd cu (videoArgs nd ident cu) None w")
  show ?thesis
  proof (cases res)
    case (Inl e)
    with r p n m show ?thesis by (auto simp: fetchVideo_def)
  next
    case (Inr ok)
    show ?thesis
    proof (cases "readdirSync nd (downloadsDir nd) w'")
      case None
      with Inr r p n m show ?thesis by (auto simp: fetchVideo_def)
    next
      case (Some listing)
      show ?thesis
      proof (cases "filter (isVideoOf ident) listing")
        case Nil
        with Some Inr r p n m show ?thesis by (auto simp: fetchVideo_def)
      next
        case (Cons vfile rest)
        obtain new2 where
          e: "extractAudioAndAssemble (recording nd) url ident pf cu en vfile (w', cs @ new) =
                (fst (extractAudioAndAssemble nd url ident pf cu en vfile w'),
                 (snd (extractAudioAndAssemble nd url ident pf cu en vfile w'), (cs @ new) @ new2))"
          and n2: "\<forall>c\<in>set new2. invocationOf nd cu (audioArgs nd ident cu) c"
          using extractAudioAndAssemble_recording [of nd url ident pf cu en vfile w' "cs @ new"]
          by blast
        have "fetchVideo (recording nd) url ident pf cu en (w, cs) =
                (fst (fetchVideo nd url ident pf cu en w),
                 (snd (fetchVideo nd url ident pf cu en w), cs @ (new @ new2)))"
          using Cons Some Inr r p e by (simp add: fetchVideo_def)
        moreover have "\<forall>c\<in>set (new @ new2). invocationOf nd cu (videoArgs nd ident cu) c
                         \<or> invocationOf nd cu (audioArgs nd ident cu) c"
          using n n2 by auto
        moreover have "(''yt-dlp'', buildCommonArgs nd cu @ videoArgs nd ident cu)
                         \<in> set (new @ new2)"
          using m by simp
        ultimately show ?thesis by blast
      qed
    qed
  qed
qed

lemma downloadVideoAndExtractAudio_recording:
  "\<exists>new. downloadVideoAndExtractAudio (recording nd) url (w, cs) =
           (fst (downloadVideoAndExtractAudio nd url w),
            (snd (downloadVideoAndExtractAudio nd url w), cs @ new))
         \<and> (\<forall>c\<in>set new.
               invocationOf nd (cleanInstagramUrl url) (probeArgs (cleanInstagramUrl url)) c
             \<or> invocationOf nd (cleanInstagramUrl url)
                  (videoArgs nd (fst (randomUUID nd w)) (cleanInstagramUrl url)) c
             \<or> invocationOf nd (cleanInstagramUrl url)
                  (audioArgs nd (fst (randomUUID nd w)) (cleanInstagramUrl url)) c)
         \<and> (''yt-dlp'', buildCommonArgs nd (cleanInstagramUrl url)
                          @ probeArgs (cleanInstagramUrl url)) \<in> set new"
proof -
  let ?cu = "cleanInstagramUrl url"
  obtain ident w0 where u: "randomUUID nd w = (ident, w0)"
    by (cases "randomUUID nd w")
  obtain new where
    r: "runYtDlpWithFallbacks (recording nd) ?cu (probeArgs ?cu) None (w0, cs) =
          (fst (runYtDlpWithFallbacks nd ?cu (probeArgs ?cu) None w0),
           (snd (runYtDlpWithFallbacks nd ?cu (probeArgs ?cu) None w0), cs @ new))"
    and n: "\<forall>c\<in>set new. invocationOf nd ?cu (probeArgs ?cu) c"
    and m: "(''yt-dlp'', buildCommonArgs nd ?cu @ probeArgs ?cu) \<in> set new"
    using runYtDlpWithFallbacks_recording [of nd ?cu "probeArgs ?cu" None w0 cs] by blast
  obtain res w1 where p: "runYtDlpWithFallbacks nd ?cu (probeArgs ?cu) None w0 = (res, w1)"
    by (cases "runYtDlpWithFallbacks nd ?cu (probeArgs ?cu) None w0")
  show ?thesis
  proof (cases res)
    case (Inl e)
    with u r p n m show ?thesis by (auto simp: downloadVideoAndExtractAudio_def)
  next
    case (Inr ok)
    obtain out err where ok: "ok = (out, err)" by (cases ok)
    show ?thesis
    proof (cases "deriveEnrichment nd (detectPlatform url) (parseMetadata nd out)")
      case (Inl e)
      with Inr ok u r p n m show ?thesis by (auto simp: downloadVideoAndExtractAudio_def)
    next
      case (Inr en)
      obtain new2 where
        e: "fetchVideo (recording nd) url ident (detectPlatform url) ?cu en (w1, cs @ new) =
              (fst (fetchVideo nd url ident (detectPlatform url) ?cu en w1),
               (snd (fetchVideo nd url ident (detectPlatform url) ?cu en w1), (cs @ new) @ new2))"
        and n2: "\<forall>c\<in>set new2. invocationOf nd ?cu (videoArgs nd ident ?cu) c
                         \<or> invocationOf nd ?cu (audioArgs nd ident ?cu) c"
        using fetchVideo_recording [of nd url ident "detectPlatform url" ?cu en w1 "cs @ new"]
        by blast
      have "downloadVideoAndExtractAudio (recording nd) url (w, cs) =
              (fst (downloadVideoAndExtractAudio nd url w),
               (snd (downloadVideoAndExtractAudio nd url w), cs @ (new @ new2)))"
        using Inr \<open>res = Inr ok\<close> ok u r p e
        by (simp add: downloadVideoAndExtractAudio_def Let_def del: detectPlatform.simps)
      moreover have "\<forall>c\<in>set (new @ new2).
               invocationOf nd ?cu (probeArgs ?cu) c
             \<or> invocationOf nd ?cu (videoArgs nd (fst (randomUUID nd w)) ?cu) c
             \<or> invocationOf nd ?cu (audioArgs nd (fst (randomUUID nd w)) ?cu) c"
        using n n2 u by auto
      moreover have "(''yt-dlp'', buildCommonArgs nd ?cu @ probeArgs ?cu) \<in> set (new @ new2)"
        using m by simp
      ultimately show ?thesis by blast
    qed
  qed
qed

subsection \<open>Facts about the orchestration\<close>

lemma extractAudioAndAssemble_result:
  assumes "extractAudioAndAssemble nd url ident pf cu en vfile w = (Inr r, w')"
  shows "id_uuid r = ident \<and> platform r = pf \<and> inputUrl r = url \<and> filename r = vfile
         \<and> title r = en_title en \<and> thumbnailUrl r = en_thumbnailUrl en
         \<and> publishedAt r = en_publishedAt en \<and> audioUrl r = en_audioUrl en"
  using assms
  by (auto simp: extractAudioAndAssemble_def Let_def split: prod.splits sum.splits option.splits)

lemma fetchVideo_result:
  assumes "fetchVideo nd url ident pf cu en w = (Inr r, w')"
  shows "id_uuid r = ident \<and> platform r = pf \<and> inputUrl r = url
         \<and> title r = en_title en \<and> thumbnailUrl r = en_thumbnailUrl en
         \<and> publishedAt r = en_publishedAt en \<and> audioUrl r = en_audioUrl en"
  using assms
  by (auto simp: fetchVideo_def split: prod.splits sum.splits option.splits list.splits
           dest: extractAudioAndAssemble_result)

lemma downloadVideoAndExtractAudio_result:
  assumes "downloadVideoAndExtractAudio nd url w = (Inr r, w')"
  shows "inputUrl r = url \<and> platform r = detectPlatform url \<and> id_uuid r = fst (randomUUID nd w)"
  using assms
  by (auto simp: downloadVideoAndExtractAudio_def Let_def
           split: prod.splits sum.splits dest: fetchVideo_result simp del: detectPlatform.simps)

lemma deriveEnrichment_Undefined: "deriveEnrichment nd pf Undefined = Inr noEnrichment"
  by (simp add: deriveEnrichment_def selectAudioUrl_def formatsAudioUrl_def tiktokMusicUrl_def
        selectThumbnailUrl_def js_or_def firstIfArray_def isHttpString_def noEnrichment_def)

lemma probe_unparseable_continues:
  assumes "randomUUID nd w = (ident, w0)"
      and "runYtDlpWithFallbacks nd (cleanInstagramUrl url) (probeArgs (cleanInstagramUrl url))
             None w0 = (Inr (out, err), w1)"
      and "JSON_parse nd out = None"
  shows "downloadVideoAndExtractAudio nd url w =
           fetchVideo nd url ident (detectPlatform url) (cleanInstagramUrl url) noEnrichment w1"
  using assms
  by (simp add: downloadVideoAndExtractAudio_def Let_def parseMetadata_def
        deriveEnrichment_Undefined del: detectPlatform.simps)

lemma cleanInstagramUrl_eq:
  "cleanInstagramUrl url =
     (if includes_str url ''instagram.com'' then takeWhile (\<lambda>x. x \<noteq> CHR ''?'') url else url)"
  by (simp add: cleanInstagramUrl_def hd_split)

lemma invocationOf_last:
  assumes "invocationOf nd u a c" and "a \<noteq> []"
  shows "snd c \<noteq> [] \<and> last (snd c) = last a"
  using assms by (auto simp: invocationOf_def)

lemma buildCommonArgs_eq:
  "buildCommonArgs nd u =
     baseArgs nd
     @ (if includes_str u ''tiktok.com'' then tiktokArgs else [])
     @ (if includes_str u ''instagram.com'' then instagramArgs else [])"
  by (simp add: buildCommonArgs_def baseArgs_def Let_def)

lemma includes_str_takeWhile:
  "includes_str (takeWhile P s) sub \<Longrightarrow> includes_str s sub"
  unfolding includes_str_def
  by (rule sublist_order.order_trans [OF _ sublist_takeWhile])

lemma downloadVideoAndExtractAudio_enrichment:
  assumes "downloadVideoAndExtractAudio nd url w = (Inr r, w')"
      and "randomUUID nd w = (ident, w0)"
      and "runYtDlpWithFallbacks nd (cleanInstagramUrl url) (probeArgs (cleanInstagramUrl url))
             None w0 = (Inr (out, err), w1)"
  shows "deriveEnrichment nd (detectPlatform url) (parseMetadata nd out) =
           Inr \<lparr>en_title = title r, en_thumbnailUrl = thumbnailUrl r,
                en_publishedAt = publishedAt r, en_audioUrl = audioUrl r\<rparr>"
proof (cases "deriveEnrichment nd (detectPlatform url) (parseMetadata nd out)")
  case (Inl e)
  with assms show ?thesis
    by (simp add: downloadVideoAndExtractAudio_def Let_def del: detectPlatform.simps)
next
  case (Inr en)
  with assms have
    "fetchVideo nd url ident (detectPlatform url) (cleanInstagramUrl url) en w1 = (Inr r, w')"
    by (simp add: downloadVideoAndExtractAudio_def Let_def del: detectPlatform.simps)
  from fetchVideo_result [OF this] Inr show ?thesis by simp
qed

subsection \<open>Resolving the downloaded video file (C1)\<close>

text \<open>
  C1. In every run that reaches the scan of the downloads directory (the probe and the
  video fetch resolved, deriving the enrichment fields did not throw, the directory
  could be read) and finds no file name that begins with \<^verbatim>\<open><id>-\<close>, the orchestration
  throws \<^verbatim>\<open>Downloaded file not found\<close>: the request fails and no result is returned.
\<close>

theorem video_file_missing_is_fatal:
  assumes "randomUUID nd w = (ident, w0)"
      and "runYtDlpWithFallbacks nd (cleanInstagramUrl url) (probeArgs (cleanInstagramUrl url))
             None w0 = (Inr (out, err), w1)"
      and "deriveEnrichment nd (detectPlatform url) (parseMetadata nd out) = Inr en"
      and "runYtDlpWithFallbacks nd (cleanInstagramUrl url)
             (videoArgs nd ident (cleanInstagramUrl url)) None w1 = (Inr fetched, w2)"
      and "readdirSync nd (downloadsDir nd) w2 = Some listing"
      and "\<forall>f\<in>set listing. \<not> startsWith f (ident @ ''-'')"
  shows "downloadVideoAndExtractAudio nd url w = (Inl DownloadedFileNotFound, w2)"
proof -
  from assms(6) have "filter (isVideoOf ident) listing = []"
    by (simp add: isVideoOf_def filter_empty_conv)
  with assms(4,5) have
    "fetchVideo nd url ident (detectPlatform url) (cleanInstagramUrl url) en w1 =
       (Inl DownloadedFileNotFound, w2)"
    by (simp add: fetchVideo_def)
  with assms(1,2,3) show ?thesis
    by (simp add: downloadVideoAndExtractAudio_def Let_def del: detectPlatform.simps)
qed

theorem video_file_missing_is_fatal_witness:
  "downloadVideoAndExtractAudio
     (scripted [exits0 ''{}'', exits0 [], exits0 []] [(''{}'', JObj [])] videoMissing)
     ''https://www.tiktok.com/@user/video/123'' 0
   = (Inl DownloadedFileNotFound, 2)"
proof -
  let ?nd = "scripted [exits0 ''{}'', exits0 [], exits0 []] [(''{}'', JObj [])] videoMissing"
  let ?url = "''https://www.tiktok.com/@user/video/123''"
  have h1: "randomUUID ?nd 0 = (''7f3a'', 0)"
    by code_simp
  have h2: "runYtDlpWithFallbacks ?nd (cleanInstagramUrl ?url) (probeArgs (cleanInstagramUrl ?url))
              None 0 = (Inr (''{}'', []), 1)"
    by code_simp
  have h3: "deriveEnrichment ?nd (detectPlatform ?url) (parseMetadata ?nd ''{}'') = Inr noEnrichment"
    by code_simp
  have h4: "runYtDlpWithFallbacks ?nd (cleanInstagramUrl ?url)
              (videoArgs ?nd ''7f3a'' (cleanInstagramUrl ?url)) None 1 = (Inr ([], []), 2)"
    by code_simp
  have h5: "readdirSync ?nd (downloadsDir ?nd) 2 = Some [''0b1c-older.mp4'', ''7f3a.part'']"
    by code_simp
  have h6: "\<forall>f\<in>set [''0b1c-older.mp4'', ''7f3a.part'']. \<not> startsWith f (''7f3a'' @ ''-'')"
    by code_simp
  show ?thesis
    by (rule video_file_missing_is_fatal [OF h1 h2 h3 h4 h5 h6])
qed

subsection \<open>Resolving the extracted audio file (C2)\<close>

text \<open>
  C2. In every run whose video steps succeed and whose audio extraction resolves, if the
  audios directory holds no file name that both starts with \<^verbatim>\<open><id>-audio\<close> and ends with
  \<^verbatim>\<open>.mp3\<close>, the orchestration still returns a result, with \<^verbatim>\<open>audioPath\<close> unset.
\<close>

theorem audio_file_missing_is_tolerated:
  assumes "randomUUID nd w = (ident, w0)"
      and "runYtDlpWithFallbacks nd (cleanInstagramUrl url) (probeArgs (cleanInstagramUrl url))
             None w0 = (Inr (out, err), w1)"
      and "deriveEnrichment nd (detectPlatform url) (parseMetadata nd out) = Inr en"
      and "runYtDlpWithFallbacks nd (cleanInstagramUrl url)
             (videoArgs nd ident (cleanInstagramUrl url)) None w1 = (Inr fetched, w2)"
      and "readdirSync nd (downloadsDir nd) w2 = Some listing"
      and "\<exists>f\<in>set listing. startsWith f (ident @ ''-'')"
      and "runYtDlpWithFallbacks nd (cleanInstagramUrl url)
             (audioArgs nd ident (cleanInstagramUrl url)) None w2 = (Inr extracted, w3)"
      and "readdirSync nd (audiosDir nd) w3 = Some audios"
      and "\<forall>f\<in>set audios. \<not> (startsWith f (ident @ ''-audio'') \<and> endsWith f ''.mp3'')"
  shows "\<exists>r. downloadVideoAndExtractAudio nd url w = (Inr r, w3) \<and> audioPath r = None"
proof -
  from assms(6) obtain vfile others where v: "filter (isVideoOf ident) listing = vfile # others"
    by (cases "filter (isVideoOf ident) listing") (auto simp: isVideoOf_def filter_empty_conv)
  from assms(9) have "find (isAudioOf ident) audios = None"
    by (simp add: find_None_iff isAudioOf_def)
  with assms(7,8) obtain r where
    r: "extractAudioAndAssemble nd url ident (detectPlatform url) (cleanInstagramUrl url) en vfile w2
          = (Inr r, w3)" and a: "audioPath r = None"
    by (simp add: extractAudioAndAssemble_def Let_def)
  from r v assms(4,5) have
    "fetchVideo nd url ident (detectPlatform url) (cleanInstagramUrl url) en w1 = (Inr r, w3)"
    by (simp add: fetchVideo_def)
  with assms(1,2,3) have "downloadVideoAndExtractAudio nd url w = (Inr r, w3)"
    by (simp add: downloadVideoAndExtractAudio_def Let_def del: detectPlatform.simps)
  with a show ?thesis by blast
qed

theorem audio_file_missing_is_tolerated_witness:
  "\<exists>r. downloadVideoAndExtractAudio
         (scripted [exits0 ''{}'', exits0 [], exits0 []] [(''{}'', JObj [])] videoFound)
         ''https://www.tiktok.com/@user/video/123'' 0
       = (Inr r, 3) \<and> audioPath r = None"
proof -
  let ?nd = "scripted [exits0 ''{}'', exits0 [], exits0 []] [(''{}'', JObj [])] videoFound"
  let ?url = "''https://www.tiktok.com/@user/video/123''"
  have h1: "randomUUID ?nd 0 = (''7f3a'', 0)"
    by code_simp
  have h2: "runYtDlpWithFallbacks ?nd (cleanInstagramUrl ?url) (probeArgs (cleanInstagramUrl ?url))
              None 0 = (Inr (''{}'', []), 1)"
    by code_simp
  have h3: "deriveEnrichment ?nd (detectPlatform ?url) (parseMetadata ?nd ''{}'') = Inr noEnrichment"
    by code_simp
  have h4: "runYtDlpWithFallbacks ?nd (cleanInstagramUrl ?url)
              (videoArgs ?nd ''7f3a'' (cleanInstagramUrl ?url)) None 1 = (Inr ([], []), 2)"
    by code_simp
  have h5: "readdirSync ?nd (downloadsDir ?nd) 2 = Some [''0b1c-older.mp4'', ''7f3a-clip.mp4'']"
    by code_simp
  have h6: "\<exists>f\<in>set [''0b1c-older.mp4'', ''7f3a-clip.mp4'']. startsWith f (''7f3a'' @ ''-'')"
    by code_simp
  have h7: "runYtDlpWithFallbacks ?nd (cleanInstagramUrl ?url)
              (audioArgs ?nd ''7f3a'' (cleanInstagramUrl ?url)) None 2 = (Inr ([], []), 3)"
    by code_simp
  have h8: "readdirSync ?nd (audiosDir ?nd) 3 = Some [''0b1c-audio.mp3'', ''7f3a-audio.webm'']"
    by code_simp
  have h9: "\<forall>f\<in>set [''0b1c-audio.mp3'', ''7f3a-audio.webm''].
              \<not> (startsWith f (''7f3a'' @ ''-audio'') \<and> endsWith f ''.mp3'')"
    by code_simp
  show ?thesis
    by (rule audio_file_missing_is_tolerated [OF h1 h2 h3 h4 h5 h6 h7 h8 h9])
qed

subsection \<open>A probe whose output is not JSON (C3)\<close>

text \<open>
  C3. When the probe resolves with a stdout that \<^verbatim>\<open>JSON.parse\<close> rejects, the run does not
  abort: it continues with the video fetch, every enrichment field unset; the video-fetch
  command is launched; and a result that is returned has \<^verbatim>\<open>title\<close>, \<^verbatim>\<open>thumbnailUrl\<close>,
  \<^verbatim>\<open>publishedAt\<close> and \<^verbatim>\<open>audioUrl\<close> unset. The concrete run after the theorem succeeds.
\<close>

theorem unparseable_probe_is_tolerated:
  assumes "randomUUID nd w = (ident, w0)"
      and "runYtDlpWithFallbacks nd (cleanInstagramUrl url) (probeArgs (cleanInstagramUrl url))
             None w0 = (Inr (out, err), w1)"
      and "JSON_parse nd out = None"
  shows "downloadVideoAndExtractAudio nd url w =
           fetchVideo nd url ident (detectPlatform url) (cleanInstagramUrl url) noEnrichment w1
         \<and> (''yt-dlp'', buildCommonArgs nd (cleanInstagramUrl url)
                          @ videoArgs nd ident (cleanInstagramUrl url))
             \<in> set (snd (snd (downloadVideoAndExtractAudio (recording nd) url (w, []))))
         \<and> (\<forall>r w'. downloadVideoAndExtractAudio nd url w = (Inr r, w')
               \<longrightarrow> title r = Undefined \<and> thumbnailUrl r = Undefined
                   \<and> publishedAt r = Undefined \<and> audioUrl r = Undefined)"
proof (intro conjI allI impI)
  let ?cu = "cleanInstagramUrl url"
  show eq: "downloadVideoAndExtractAudio nd url w =
          fetchVideo nd url ident (detectPlatform url) ?cu noEnrichment w1"
    by (rule probe_unparseable_continues [OF assms])
  {
    fix r w'
    assume "downloadVideoAndExtractAudio nd url w = (Inr r, w')"
    with eq have "fetchVideo nd url ident (detectPlatform url) ?cu noEnrichment w1 = (Inr r, w')"
      by simp
    from fetchVideo_result [OF this]
    show "title r = Undefined" and "thumbnailUrl r = Undefined"
      and "publishedAt r = Undefined" and "audioUrl r = Undefined"
      by (simp_all add: noEnrichment_def)
  }
  obtain new where
    p: "runYtDlpWithFallbacks (recording nd) ?cu (probeArgs ?cu) None (w0, []) =
          (Inr (out, err), (w1, [] @ new))"
    using runYtDlpWithFallbacks_recording [of nd ?cu "probeArgs ?cu" None w0 "[]"] assms(2)
    by auto
  have u: "randomUUID (recording nd) (w, []) = (ident, (w0, []))"
    using assms(1) by simp
  have j: "JSON_parse (recording nd) out = None"
    using assms(3) by simp
  have "downloadVideoAndExtractAudio (recording nd) url (w, []) =
          fetchVideo (recording nd) url ident (detectPlatform url) ?cu noEnrichment (w1, [] @ new)"
    by (rule probe_unparseable_continues [OF u p j])
  moreover obtain new2 where
    "fetchVideo (recording nd) url ident (detectPlatform url) ?cu noEnrichment (w1, [] @ new) =
       (fst (fetchVideo nd url ident (detectPlatform url) ?cu noEnrichment w1),
        (snd (fetchVideo nd url ident (detectPlatform url) ?cu noEnrichment w1),
         ([] @ new) @ new2))"
    and "(''yt-dlp'', buildCommonArgs nd ?cu @ videoArgs nd ident ?cu) \<in> set new2"
    using fetchVideo_recording [of nd url ident "detectPlatform url" ?cu noEnrichment w1 "[] @ new"]
    by blast
  ultimately show "(''yt-dlp'', buildCommonArgs nd ?cu @ videoArgs nd ident ?cu)
             \<in> set (snd (snd (downloadVideoAndExtractAudio (recording nd) url (w, []))))"
    by simp
qed

theorem unparseable_probe_is_tolerated_witness:
  "\<exists>r. downloadVideoAndExtractAudio
          (scripted [exits0 ''WARNING: unable to extract'', exits0 [], exits0 []] [] videoFound)
          ''https://www.tiktok.com/@user/video/123'' 0 = (Inr r, 3)
       \<and> filename r = ''7f3a-clip.mp4''
       \<and> title r = Undefined \<and> thumbnailUrl r = Undefined
       \<and> publishedAt r = Undefined \<and> audioUrl r = Undefined"
proof -
  let ?nd = "scripted [exits0 ''WARNING: unable to extract'', exits0 [], exits0 []] [] videoFound"
  let ?url = "''https://www.tiktok.com/@user/video/123''"
  have h1: "randomUUID ?nd 0 = (''7f3a'', 0)"
    by code_simp
  have h2: "runYtDlpWithFallbacks ?nd (cleanInstagramUrl ?url) (probeArgs (cleanInstagramUrl ?url))
              None 0 = (Inr (''WARNING: unable to extract'', []), 1)"
    by code_simp
  have h3: "JSON_parse ?nd ''WARNING: unable to extract'' = None"
    by code_simp
  have ok: "\<not> isl (fst (downloadVideoAndExtractAudio ?nd ?url 0))
            \<and> snd (downloadVideoAndExtractAudio ?nd ?url 0) = 3
            \<and> filename (projr (fst (downloadVideoAndExtractAudio ?nd ?url 0))) = ''7f3a-clip.mp4''"
    by code_simp
  then obtain r where r: "downloadVideoAndExtractAudio ?nd ?url 0 = (Inr r, 3)"
    and f: "filename r = ''7f3a-clip.mp4''"
    by (cases "downloadVideoAndExtractAudio ?nd ?url 0";
        cases "fst (downloadVideoAndExtractAudio ?nd ?url 0)") auto
  from unparseable_probe_is_tolerated [OF h1 h2 h3] r
  have "title r = Undefined \<and> thumbnailUrl r = Undefined
        \<and> publishedAt r = Undefined \<and> audioUrl r = Undefined"
    by blast
  with r f show ?thesis by blast
qed

subsection \<open>Platform classification (C4)\<close>

text \<open>
  C4 (as amended). \<^verbatim>\<open>detectPlatform\<close> is a function of the URL string alone. Every URL
  that contains \<^verbatim>\<open>tiktok.com\<close> is classified as tiktok; every URL that contains
  \<^verbatim>\<open>instagram.com\<close> and does not contain \<^verbatim>\<open>tiktok.com\<close> is classified as instagram;
  every URL that contains neither is classified as unknown.
\<close>

theorem detectPlatform_classification:
  "(includes_str url ''tiktok.com'' \<longrightarrow> detectPlatform url = Tiktok)
   \<and> (includes_str url ''instagram.com'' \<and> \<not> includes_str url ''tiktok.com''
        \<longrightarrow> detectPlatform url = Instagram)
   \<and> (\<not> includes_str url ''tiktok.com'' \<and> \<not> includes_str url ''instagram.com''
        \<longrightarrow> detectPlatform url = Unknown)"
  by simp

theorem detectPlatform_classification_witness:
  "detectPlatform ''https://www.tiktok.com/@user/video/123'' = Tiktok
   \<and> detectPlatform ''https://www.instagram.com/reel/Cabc/?igsh=xyz'' = Instagram
   \<and> detectPlatform ''https://example.com/watch?v=1'' = Unknown"
proof -
  have t: "includes_str ''https://www.tiktok.com/@user/video/123'' ''tiktok.com''"
    by code_simp
  have i: "includes_str ''https://www.instagram.com/reel/Cabc/?igsh=xyz'' ''instagram.com''
           \<and> \<not> includes_str ''https://www.instagram.com/reel/Cabc/?igsh=xyz'' ''tiktok.com''"
    by code_simp
  have u: "\<not> includes_str ''https://example.com/watch?v=1'' ''tiktok.com''
           \<and> \<not> includes_str ''https://example.com/watch?v=1'' ''instagram.com''"
    by code_simp
  show ?thesis
    using detectPlatform_classification [of "''https://www.tiktok.com/@user/video/123''"]
          detectPlatform_classification [of "''https://www.instagram.com/reel/Cabc/?igsh=xyz''"]
          detectPlatform_classification [of "''https://example.com/watch?v=1''"]
          t i u
    by blast
qed

text \<open>
  The claim as written also promises instagram for every URL that contains
  \<^verbatim>\<open>instagram.com\<close>. An Instagram URL that carries \<^verbatim>\<open>tiktok.com\<close> in its query string
  contains it and is classified as tiktok.
\<close>

theorem detectPlatform_instagram_counterexample:
  "includes_str ''https://www.instagram.com/reel/Cabc/?ref=tiktok.com'' ''instagram.com''
   \<and> detectPlatform ''https://www.instagram.com/reel/Cabc/?ref=tiktok.com'' \<noteq> Instagram"
  by code_simp

subsection \<open>Selecting the audio URL (C5)\<close>

text \<open>
  C5 (as amended). Let the parsed metadata have a \<^verbatim>\<open>formats\<close> list whose entries are
  objects, none of them with both codecs \<^verbatim>\<open>"none"\<close>, at least one of them declaring an
  audio codec and no video codec, and let the bitrates of those entries (\<^verbatim>\<open>abr\<close>, 0 when it
  is absent) be finite numbers. Then the URL read from \<^verbatim>\<open>formats\<close> is the URL of the first
  entry of the highest bitrate: no such entry has a higher bitrate and every such entry
  before it has a lower one. It is the selected \<^verbatim>\<open>audioUrl\<close> when it is a non-empty value
  or the platform is not tiktok; when it is empty or absent and the platform is tiktok, the
  music fallback decides.
\<close>

theorem audioUrl_selection:
  assumes formats: "optGet md ''formats'' = JArr fs"
      and entries: "\<forall>f\<in>set fs. f \<noteq> Null \<and> f \<noteq> Undefined
                      \<and> \<not> (optGet f ''acodec'' = JStr ''none''
                           \<and> optGet f ''vcodec'' = JStr ''none'')"
      and some: "filter declaresAudioOnly fs \<noteq> []"
      and finite: "\<forall>f\<in>set (filter declaresAudioOnly fs). \<exists>r. abrOrZero nd f = Finite r"
  shows "\<exists>i<length (filter declaresAudioOnly fs).
           (\<forall>j<length (filter declaresAudioOnly fs).
              bitrate nd (filter declaresAudioOnly fs ! j)
                \<le> bitrate nd (filter declaresAudioOnly fs ! i))
           \<and> (\<forall>j<i. bitrate nd (filter declaresAudioOnly fs ! j)
                       < bitrate nd (filter declaresAudioOnly fs ! i))
           \<and> formatsAudioUrl nd md = Inr (optGet (filter declaresAudioOnly fs ! i) ''url'')
           \<and> (truthy (optGet (filter declaresAudioOnly fs ! i) ''url'') \<or> pf \<noteq> Tiktok
                \<longrightarrow> selectAudioUrl nd pf md
                      = Inr (optGet (filter declaresAudioOnly fs ! i) ''url''))
           \<and> (\<not> truthy (optGet (filter declaresAudioOnly fs ! i) ''url'') \<and> pf = Tiktok
                \<longrightarrow> selectAudioUrl nd pf md = Inr (tiktokMusicUrl md))"
proof -
  let ?kept = "filter declaresAudioOnly fs"
  from hd_sortBy_first_max [OF some finite] obtain i where i: "i < length ?kept"
    and hdi: "hd (sortBy (compareAbr nd) ?kept) = ?kept ! i"
    and mx: "\<forall>j<length ?kept. bitrate nd (?kept ! j) \<le> bitrate nd (?kept ! i)"
    and before: "\<forall>j<i. bitrate nd (?kept ! j) < bitrate nd (?kept ! i)"
    by blast
  from some obtain h t where ht: "sortBy (compareAbr nd) ?kept = h # t"
    by (cases "sortBy (compareAbr nd) ?kept") (simp_all add: sortBy_Nil_iff)
  with hdi have h: "h = ?kept ! i" by simp
  have fa: "formatsAudioUrl nd md = Inr (optGet (?kept ! i) ''url'')"
    using formats ht h by (simp add: formatsAudioUrl_def filterE_isAudioOnly [OF entries])
  then have "truthy (optGet (?kept ! i) ''url'') \<or> pf \<noteq> Tiktok
      \<longrightarrow> selectAudioUrl nd pf md = Inr (optGet (?kept ! i) ''url'')"
    and "\<not> truthy (optGet (?kept ! i) ''url'') \<and> pf = Tiktok
      \<longrightarrow> selectAudioUrl nd pf md = Inr (tiktokMusicUrl md)"
    by (auto simp: selectAudioUrl_def)
  with i mx before fa show ?thesis by blast
qed

text \<open>
  The example of the claim: audio-only entries with bitrates 64, 128 and 96 (and a
  combined stream between them); the URL of the 128 entry is selected.
\<close>

theorem audioUrl_selection_witness:
  "selectAudioUrl (scripted [] [] []) Instagram probed = Inr (JStr ''https://cdn.example/a128'')"
proof -
  let ?nd = "scripted [] [] [] :: nat node"
  let ?kept = "[entry ''mp4a.40.5'' 64 ''https://cdn.example/a64'',
                entry ''mp4a.40.2'' 128 ''https://cdn.example/a128'',
                entry ''opus'' 96 ''https://cdn.example/a96'']"
  have kept: "filter declaresAudioOnly probedFormats = ?kept"
    by (simp add: probedFormats_def declaresAudioOnly_def entry_def)
  have b: "bitrate ?nd (?kept ! 0) = 64" "bitrate ?nd (?kept ! 1) = 128"
    "bitrate ?nd (?kept ! 2) = 96"
    by (simp_all add: bitrate_def abrOrZero_def entry_def)
  have h1: "optGet probed ''formats'' = JArr probedFormats"
    by (simp add: probed_def)
  have h2: "\<forall>f\<in>set probedFormats. f \<noteq> Null \<and> f \<noteq> Undefined
              \<and> \<not> (optGet f ''acodec'' = JStr ''none'' \<and> optGet f ''vcodec'' = JStr ''none'')"
    by (simp add: probedFormats_def entry_def)
  have h3: "filter declaresAudioOnly probedFormats \<noteq> []"
    by (simp add: kept)
  have h4: "\<forall>f\<in>set (filter declaresAudioOnly probedFormats). \<exists>r. abrOrZero ?nd f = Finite r"
    by (simp add: kept abrOrZero_def entry_def)
  from audioUrl_selection [OF h1 h2 h3 h4, of Instagram, unfolded kept]
  obtain i where i: "i < length ?kept"
    and mx: "\<forall>j<length ?kept. bitrate ?nd (?kept ! j) \<le> bitrate ?nd (?kept ! i)"
    and sel: "truthy (optGet (?kept ! i) ''url'') \<or> Instagram \<noteq> Tiktok
                \<longrightarrow> selectAudioUrl ?nd Instagram probed = Inr (optGet (?kept ! i) ''url'')"
    by blast
  have one: "(1::nat) < length ?kept"
    by simp
  have le: "bitrate ?nd (?kept ! 1) \<le> bitrate ?nd (?kept ! i)"
    by (rule mx [rule_format, OF one])
  from i consider "i = 0" | "i = 1" | "i = 2"
    by (auto simp: less_Suc_eq)
  then have "i = 1"
  proof cases
    case 1
    with le b show ?thesis by simp
  next
    case 2
    then show ?thesis .
  next
    case 3
    with le b show ?thesis by simp
  qed
  with sel show ?thesis by (simp add: entry_def)
qed

text \<open>
  The claim as written fails where the tiktok music fallback takes over: the only audio-only
  entry has an empty URL, the metadata names a music URL, and the platform is tiktok; the
  music URL is selected, not the URL of the entry.
\<close>

theorem audioUrl_selection_counterexample:
  "filter declaresAudioOnly
     [JObj [(''acodec'', JStr ''mp3''), (''vcodec'', JStr ''none''),
            (''abr'', JNum (Finite 128)), (''url'', JStr [])]]
     = [JObj [(''acodec'', JStr ''mp3''), (''vcodec'', JStr ''none''),
              (''abr'', JNum (Finite 128)), (''url'', JStr [])]]
   \<and> selectAudioUrl (scripted [] [] [])
         (detectPlatform ''https://www.tiktok.com/@user/video/123'')
         (JObj [(''formats'',
                   JArr [JObj [(''acodec'', JStr ''mp3''), (''vcodec'', JStr ''none''),
                               (''abr'', JNum (Finite 128)), (''url'', JStr [])]]),
                (''music'', JObj [(''playUrl'', JStr ''https://sf16.example/music.mp3'')])])
       = Inr (JStr ''https://sf16.example/music.mp3'')
   \<and> optGet (JObj [(''acodec'', JStr ''mp3''), (''vcodec'', JStr ''none''),
                   (''abr'', JNum (Finite 128)), (''url'', JStr [])]) ''url''
       \<noteq> JStr ''https://sf16.example/music.mp3''"
  by code_simp

subsection \<open>Selecting the thumbnail URL (C6)\<close>

text \<open>
  C6. When the parsed metadata has a \<^verbatim>\<open>thumbnails\<close> list, the selected \<^verbatim>\<open>thumbnailUrl\<close> is
  the URL of the last element of the list (for the empty list, which has no last element,
  it is unset); when the metadata has no \<^verbatim>\<open>thumbnails\<close> list, it is the singular
  \<^verbatim>\<open>thumbnail\<close> field. A result that is returned carries this value.
\<close>

theorem thumbnailUrl_selection:
  "(optGet md ''thumbnails'' = JArr ts \<and> ts \<noteq> []
      \<longrightarrow> selectThumbnailUrl md = optGet (last ts) ''url'')
   \<and> (optGet md ''thumbnails'' = JArr [] \<longrightarrow> selectThumbnailUrl md = Undefined)
   \<and> ((\<forall>ts. optGet md ''thumbnails'' \<noteq> JArr ts)
      \<longrightarrow> selectThumbnailUrl md = optGet md ''thumbnail'')
   \<and> (downloadVideoAndExtractAudio nd url w = (Inr r, w')
       \<and> randomUUID nd w = (ident, w0)
       \<and> runYtDlpWithFallbacks nd (cleanInstagramUrl url) (probeArgs (cleanInstagramUrl url))
            None w0 = (Inr (out, err), w1)
       \<and> parseMetadata nd out = md
      \<longrightarrow> thumbnailUrl r = selectThumbnailUrl md)"
proof (intro conjI impI)
  assume a: "optGet md ''thumbnails'' = JArr ts \<and> ts \<noteq> []"
  then have "at_index ts (int (length ts) - 1) = last ts"
    by (simp add: at_index_def last_conv_nth nat_diff_distrib')
  with a show "selectThumbnailUrl md = optGet (last ts) ''url''"
    by (simp add: selectThumbnailUrl_def)
next
  assume "optGet md ''thumbnails'' = JArr []"
  then show "selectThumbnailUrl md = Undefined"
    by (simp add: selectThumbnailUrl_def at_index_def)
next
  assume "\<forall>ts. optGet md ''thumbnails'' \<noteq> JArr ts"
  then show "selectThumbnailUrl md = optGet md ''thumbnail''"
    by (cases "optGet md ''thumbnails''") (simp_all add: selectThumbnailUrl_def)
next
  assume a: "downloadVideoAndExtractAudio nd url w = (Inr r, w')
       \<and> randomUUID nd w = (ident, w0)
       \<and> runYtDlpWithFallbacks nd (cleanInstagramUrl url) (probeArgs (cleanInstagramUrl url))
            None w0 = (Inr (out, err), w1)
       \<and> parseMetadata nd out = md"
  then have "deriveEnrichment nd (detectPlatform url) md =
           Inr \<lparr>en_title = title r, en_thumbnailUrl = thumbnailUrl r,
                en_publishedAt = publishedAt r, en_audioUrl = audioUrl r\<rparr>"
    using downloadVideoAndExtractAudio_enrichment [of nd url w r w' ident w0 out err w1]
    by blast
  then show "thumbnailUrl r = selectThumbnailUrl md"
    by (auto simp: deriveEnrichment_def split: sum.splits)
qed

text \<open>
  Three probes: a list of three thumbnails next to a singular field, an empty list next
  to a singular field, and a singular field alone; and a run that returns the last
  thumbnail of its probe.
\<close>

theorem thumbnailUrl_selection_witness:
  "selectThumbnailUrl
     (JObj [(''thumbnail'', JStr ''https://img.example/cover.jpg''),
            (''thumbnails'',
               JArr [JObj [(''url'', JStr ''https://img.example/1.jpg'')],
                     JObj [(''url'', JStr ''https://img.example/2.jpg'')],
                     JObj [(''url'', JStr ''https://img.example/3.jpg'')]])])
     = JStr ''https://img.example/3.jpg''
   \<and> selectThumbnailUrl
       (JObj [(''thumbnail'', JStr ''https://img.example/cover.jpg''), (''thumbnails'', JArr [])])
     = Undefined
   \<and> selectThumbnailUrl (JObj [(''thumbnail'', JStr ''https://img.example/cover.jpg'')])
     = JStr ''https://img.example/cover.jpg''
   \<and> (\<exists>r. downloadVideoAndExtractAudio
              (scripted [exits0 ''{thumbnails}'', exits0 [], exits0 []]
                 [(''{thumbnails}'',
                   JObj [(''thumbnails'',
                            JArr [JObj [(''url'', JStr ''https://img.example/1.jpg'')],
                                  JObj [(''url'', JStr ''https://img.example/2.jpg'')]])])]
                 videoFound)
              ''https://www.tiktok.com/@user/video/123'' 0 = (Inr r, 3)
          \<and> thumbnailUrl r = JStr ''https://img.example/2.jpg'')"
proof -
  let ?ts = "[JObj [(''url'', JStr ''https://img.example/1.jpg'')],
              JObj [(''url'', JStr ''https://img.example/2.jpg'')],
              JObj [(''url'', JStr ''https://img.example/3.jpg'')]]"
  let ?md1 = "JObj [(''thumbnail'', JStr ''https://img.example/cover.jpg''),
                    (''thumbnails'', JArr ?ts)]"
  let ?md2 = "JObj [(''thumbnail'', JStr ''https://img.example/cover.jpg''),
                    (''thumbnails'', JArr [])]"
  let ?md3 = "JObj [(''thumbnail'', JStr ''https://img.example/cover.jpg'')]"
  let ?md4 = "JObj [(''thumbnails'',
                       JArr [JObj [(''url'', JStr ''https://img.example/1.jpg'')],
                             JObj [(''url'', JStr ''https://img.example/2.jpg'')]])]"
  let ?nd = "scripted [exits0 ''{thumbnails}'', exits0 [], exits0 []]
               [(''{thumbnails}'', ?md4)] videoFound"
  let ?url = "''https://www.tiktok.com/@user/video/123''"
  have a: "optGet ?md1 ''thumbnails'' = JArr ?ts \<and> ?ts \<noteq> []"
    by simp
  have b: "optGet ?md2 ''thumbnails'' = JArr []"
    by simp
  have c: "\<forall>ts. optGet ?md3 ''thumbnails'' \<noteq> JArr ts"
    by simp
  have 1: "selectThumbnailUrl ?md1 = JStr ''https://img.example/3.jpg''"
    using thumbnailUrl_selection [where md = ?md1 and ts = ?ts, THEN conjunct1] a by simp
  have 2: "selectThumbnailUrl ?md2 = Undefined"
    using thumbnailUrl_selection [where md = ?md2, THEN conjunct2, THEN conjunct1] b by blast
  have 3: "selectThumbnailUrl ?md3 = JStr ''https://img.example/cover.jpg''"
    using thumbnailUrl_selection [where md = ?md3, THEN conjunct2, THEN conjunct2, THEN conjunct1] c
    by simp
  have ok: "\<not> isl (fst (downloadVideoAndExtractAudio ?nd ?url 0))
            \<and> snd (downloadVideoAndExtractAudio ?nd ?url 0) = 3"
    by code_simp
  then obtain r where r: "downloadVideoAndExtractAudio ?nd ?url 0 = (Inr r, 3)"
    by (cases "downloadVideoAndExtractAudio ?nd ?url 0";
        cases "fst (downloadVideoAndExtractAudio ?nd ?url 0)") auto
  have h1: "randomUUID ?nd 0 = (''7f3a'', 0)"
    by code_simp
  have h2: "runYtDlpWithFallbacks ?nd (cleanInstagramUrl ?url) (probeArgs (cleanInstagramUrl ?url))
              None 0 = (Inr (''{thumbnails}'', []), 1)"
    by code_simp
  have h3: "parseMetadata ?nd ''{thumbnails}'' = ?md4"
    by code_simp
  have d: "optGet ?md4 ''thumbnails''
             = JArr [JObj [(''url'', JStr ''https://img.example/1.jpg'')],
                     JObj [(''url'', JStr ''https://img.example/2.jpg'')]]
           \<and> [JObj [(''url'', JStr ''https://img.example/1.jpg'')],
                JObj [(''url'', JStr ''https://img.example/2.jpg'')]] \<noteq> []"
    by simp
  have "thumbnailUrl r = selectThumbnailUrl ?md4"
    using thumbnailUrl_selection [where md = ?md4 and nd = ?nd and url = ?url and w = 0
            and r = r and w' = 3 and ident = "''7f3a''" and ?w0.0 = 0
            and out = "''{thumbnails}''" and err = "[]" and ?w1.0 = 1,
            THEN conjunct2, THEN conjunct2, THEN conjunct2] r h1 h2 h3
    by blast
  also have "\<dots> = JStr ''https://img.example/2.jpg''"
    using thumbnailUrl_selection
            [where md = ?md4
               and ts = "[JObj [(''url'', JStr ''https://img.example/1.jpg'')],
                          JObj [(''url'', JStr ''https://img.example/2.jpg'')]]",
             THEN conjunct1] d
    by simp
  finally have 4: "thumbnailUrl r = JStr ''https://img.example/2.jpg''" .
  from 1 2 3 4 r show ?thesis by blast
qed

subsection \<open>The two-tier invocation (C7)\<close>

text \<open>
  C7 (as amended). \<^verbatim>\<open>runYtDlpRaw\<close> launches the standalone executable \<^verbatim>\<open>yt-dlp\<close> first.
  When that run resolves (exit code 0) nothing else is launched and its output is returned.
  When it rejects, be it because the executable could not be launched or because it was
  launched and exited with a code other than 0, the interpreter-module invocation
  \<^verbatim>\<open>python -m yt_dlp\<close> is launched with the same arguments, and its outcome is the
  outcome of the call. The two kinds of failure are not told apart.
\<close>

theorem runYtDlpRaw_fallback:
  "(spawn nd ''yt-dlp'' args \<lparr>cwd = dir, shell = False, env = getAugmentedEnv nd\<rparr> w
       = (Closes (Some 0) out err, w1)
     \<longrightarrow> runYtDlpRaw (recording nd) args dir (w, []) =
           (Inr (out, err), (w1, [(''yt-dlp'', args)])))
   \<and> (spawn nd ''yt-dlp'' args \<lparr>cwd = dir, shell = False, env = getAugmentedEnv nd\<rparr> w
       = (EmitsError e, w1)
     \<longrightarrow> runYtDlpRaw (recording nd) args dir (w, []) =
           (fst (run nd (getPythonCommand nd) ([''-m'', ''yt_dlp''] @ args) dir w1),
            (snd (run nd (getPythonCommand nd) ([''-m'', ''yt_dlp''] @ args) dir w1),
             [(''yt-dlp'', args), (getPythonCommand nd, [''-m'', ''yt_dlp''] @ args)])))
   \<and> (spawn nd ''yt-dlp'' args \<lparr>cwd = dir, shell = False, env = getAugmentedEnv nd\<rparr> w
       = (Closes code out err, w1) \<and> code \<noteq> Some 0
     \<longrightarrow> runYtDlpRaw (recording nd) args dir (w, []) =
           (fst (run nd (getPythonCommand nd) ([''-m'', ''yt_dlp''] @ args) dir w1),
            (snd (run nd (getPythonCommand nd) ([''-m'', ''yt_dlp''] @ args) dir w1),
             [(''yt-dlp'', args), (getPythonCommand nd, [''-m'', ''yt_dlp''] @ args)])))"
  by (simp add: runYtDlpRaw_def run_recording run_resolves run_rejects_launch
        run_rejects_exit Let_def)

text \<open>
  Three runs: the executable succeeds; the executable is not installed and the module
  succeeds; the executable exits with code 1 and the module succeeds.
\<close>

theorem runYtDlpRaw_fallback_witness:
  "runYtDlpRaw (recording (scripted [exits0 ''{}''] [] []))
     [''-J'', ''https://www.tiktok.com/@user/video/123''] None (0, [])
     = (Inr (''{}'', []),
        (1, [(''yt-dlp'', [''-J'', ''https://www.tiktok.com/@user/video/123''])]))
   \<and> runYtDlpRaw (recording (scripted [EmitsError ''spawn yt-dlp ENOENT'', exits0 ''{}''] [] []))
       [''-J'', ''https://www.tiktok.com/@user/video/123''] None (0, [])
     = (Inr (''{}'', []),
        (2, [(''yt-dlp'', [''-J'', ''https://www.tiktok.com/@user/video/123'']),
             (''python'', [''-m'', ''yt_dlp'', ''-J'', ''https://www.tiktok.com/@user/video/123''])]))
   \<and> runYtDlpRaw
       (recording (scripted [Closes (Some 1) [] ''ERROR: Unable to extract'', exits0 ''{}''] [] []))
       [''-J'', ''https://www.tiktok.com/@user/video/123''] None (0, [])
     = (Inr (''{}'', []),
        (2, [(''yt-dlp'', [''-J'', ''https://www.tiktok.com/@user/video/123'']),
             (''python'', [''-m'', ''yt_dlp'', ''-J'', ''https://www.tiktok.com/@user/video/123''])]))"
proof -
  let ?args = "[''-J'', ''https://www.tiktok.com/@user/video/123'']"
  let ?n1 = "scripted [exits0 ''{}''] [] []"
  let ?n2 = "scripted [EmitsError ''spawn yt-dlp ENOENT'', exits0 ''{}''] [] []"
  let ?n3 = "scripted [Closes (Some 1) [] ''ERROR: Unable to extract'', exits0 ''{}''] [] []"
  have s1: "spawn ?n1 ''yt-dlp'' ?args \<lparr>cwd = None, shell = False, env = getAugmentedEnv ?n1\<rparr> 0
              = (Closes (Some 0) ''{}'' [], 1)"
    by (simp add: scripted_def exits0_def)
  have s2: "spawn ?n2 ''yt-dlp'' ?args \<lparr>cwd = None, shell = False, env = getAugmentedEnv ?n2\<rparr> 0
              = (EmitsError ''spawn yt-dlp ENOENT'', 1)"
    by (simp add: scripted_def)
  have s3: "spawn ?n3 ''yt-dlp'' ?args \<lparr>cwd = None, shell = False, env = getAugmentedEnv ?n3\<rparr> 0
              = (Closes (Some 1) [] ''ERROR: Unable to extract'', 1)
            \<and> Some (1::int) \<noteq> Some 0"
    by (simp add: scripted_def)
  have p2: "getPythonCommand ?n2 = ''python''"
    and r2: "run ?n2 ''python'' (''-m'' # ''yt_dlp'' # ?args) None (Suc 0) = (Inr (''{}'', []), 2)"
    by (simp_all add: getPythonCommand_def run_def scripted_def exits0_def)
  have p3: "getPythonCommand ?n3 = ''python''"
    and r3: "run ?n3 ''python'' (''-m'' # ''yt_dlp'' # ?args) None (Suc 0) = (Inr (''{}'', []), 2)"
    by (simp_all add: getPythonCommand_def run_def scripted_def exits0_def)
  have 1: "runYtDlpRaw (recording ?n1) ?args None (0, [])
             = (Inr (''{}'', []), (1, [(''yt-dlp'', ?args)]))"
    using runYtDlpRaw_fallback [where nd = ?n1 and args = ?args and dir = None and w = 0
            and out = "''{}''" and err = "[]" and ?w1.0 = 1] s1
    by blast
  have 2: "runYtDlpRaw (recording ?n2) ?args None (0, [])
             = (Inr (''{}'', []),
                (2, [(''yt-dlp'', ?args), (''python'', [''-m'', ''yt_dlp''] @ ?args)]))"
    using runYtDlpRaw_fallback [where nd = ?n2 and args = ?args and dir = None and w = 0
            and e = "''spawn yt-dlp ENOENT''" and ?w1.0 = 1] s2
    by (simp add: p2 r2)
  have 3: "runYtDlpRaw (recording ?n3) ?args None (0, [])
             = (Inr (''{}'', []),
                (2, [(''yt-dlp'', ?args), (''python'', [''-m'', ''yt_dlp''] @ ?args)]))"
    using runYtDlpRaw_fallback [where nd = ?n3 and args = ?args and dir = None and w = 0
            and code = "Some 1" and out = "[]" and err = "''ERROR: Unable to extract''"
            and ?w1.0 = 1] s3
    by (simp add: p3 r3)
  from 1 2 3 show ?thesis by simp
qed

text \<open>
  The claim as written keeps a non-zero exit apart from a launch failure. Here
  \<^verbatim>\<open>yt-dlp\<close> is launched and exits with code 1, and the module invocation is launched
  all the same.
\<close>

theorem runYtDlpRaw_fallback_counterexample:
  "spawn (scripted [Closes (Some 1) [] ''ERROR: This video is private'',
                    Closes (Some 1) [] ''ERROR: This video is private''] [] [])
     ''yt-dlp'' [''-J'', ''--no-playlist'', ''https://www.instagram.com/reel/Cabc/'']
     \<lparr>cwd = None, shell = False, env = Map.empty\<rparr> 0
     = (Closes (Some 1) [] ''ERROR: This video is private'', 1)
   \<and> snd (snd (runYtDlpRaw
        (recording (scripted [Closes (Some 1) [] ''ERROR: This video is private'',
                              Closes (Some 1) [] ''ERROR: This video is private''] [] []))
        [''-J'', ''--no-playlist'', ''https://www.instagram.com/reel/Cabc/''] None (0, [])))
     = [(''yt-dlp'', [''-J'', ''--no-playlist'', ''https://www.instagram.com/reel/Cabc/'']),
        (''python'',
         [''-m'', ''yt_dlp'', ''-J'', ''--no-playlist'', ''https://www.instagram.com/reel/Cabc/''])]"
  by code_simp

subsection \<open>The URL that is recorded and the URL that is passed on (C8)\<close>

text \<open>
  C8. Every result that is returned has the submitted URL, verbatim, as its \<^verbatim>\<open>inputUrl\<close>.
  Every command a run launches (the probe is always launched) has as its last argument
  the URL cut before its first \<^verbatim>\<open>?\<close> when the submitted URL contains \<^verbatim>\<open>instagram.com\<close>,
  and the submitted URL itself when it does not.
\<close>

theorem inputUrl_verbatim_and_cleaned_url_passed:
  "(\<forall>r w'. downloadVideoAndExtractAudio nd url w = (Inr r, w') \<longrightarrow> inputUrl r = url)
   \<and> (''yt-dlp'', buildCommonArgs nd (cleanInstagramUrl url) @ probeArgs (cleanInstagramUrl url))
       \<in> set (snd (snd (downloadVideoAndExtractAudio (recording nd) url (w, []))))
   \<and> (\<forall>c\<in>set (snd (snd (downloadVideoAndExtractAudio (recording nd) url (w, [])))).
         snd c \<noteq> []
         \<and> last (snd c) =
             (if includes_str url ''instagram.com'' then takeWhile (\<lambda>x. x \<noteq> CHR ''?'') url
              else url))"
proof -
  let ?cu = "cleanInstagramUrl url"
  let ?id = "fst (randomUUID nd w)"
  obtain new where
    d: "downloadVideoAndExtractAudio (recording nd) url (w, []) =
          (fst (downloadVideoAndExtractAudio nd url w),
           (snd (downloadVideoAndExtractAudio nd url w), [] @ new))"
    and n: "\<forall>c\<in>set new. invocationOf nd ?cu (probeArgs ?cu) c
              \<or> invocationOf nd ?cu (videoArgs nd ?id ?cu) c
              \<or> invocationOf nd ?cu (audioArgs nd ?id ?cu) c"
    and m: "(''yt-dlp'', buildCommonArgs nd ?cu @ probeArgs ?cu) \<in> set new"
    using downloadVideoAndExtractAudio_recording [of nd url w "[]"] by blast
  have "\<forall>c\<in>set new. snd c \<noteq> [] \<and> last (snd c) = ?cu"
  proof
    fix c assume "c \<in> set new"
    with n consider "invocationOf nd ?cu (probeArgs ?cu) c"
      | "invocationOf nd ?cu (videoArgs nd ?id ?cu) c"
      | "invocationOf nd ?cu (audioArgs nd ?id ?cu) c"
      by blast
    then show "snd c \<noteq> [] \<and> last (snd c) = ?cu"
    proof cases
      case 1
      from invocationOf_last [OF this] show ?thesis by (simp add: probeArgs_def)
    next
      case 2
      from invocationOf_last [OF this] show ?thesis by (simp add: videoArgs_def)
    next
      case 3
      from invocationOf_last [OF this] show ?thesis by (simp add: audioArgs_def)
    qed
  qed
  with d m show ?thesis
    using downloadVideoAndExtractAudio_result [of nd url w]
    by (simp add: cleanInstagramUrl_eq)
qed

theorem inputUrl_verbatim_and_cleaned_url_passed_witness:
  "\<exists>r. downloadVideoAndExtractAudio
          (scripted [exits0 ''{}'', exits0 [], exits0 []] [(''{}'', JObj [])] videoFound)
          ''https://www.instagram.com/reel/Cabc/?igsh=MTIz'' 0 = (Inr r, 3)
       \<and> inputUrl r = ''https://www.instagram.com/reel/Cabc/?igsh=MTIz''
       \<and> (\<forall>c\<in>set (snd (snd (downloadVideoAndExtractAudio
                (recording (scripted [exits0 ''{}'', exits0 [], exits0 []]
                              [(''{}'', JObj [])] videoFound))
                ''https://www.instagram.com/reel/Cabc/?igsh=MTIz'' (0, [])))).
             last (snd c) = ''https://www.instagram.com/reel/Cabc/'')"
proof -
  let ?nd = "scripted [exits0 ''{}'', exits0 [], exits0 []] [(''{}'', JObj [])] videoFound"
  let ?url = "''https://www.instagram.com/reel/Cabc/?igsh=MTIz''"
  have ok: "\<not> isl (fst (downloadVideoAndExtractAudio ?nd ?url 0))
            \<and> snd (downloadVideoAndExtractAudio ?nd ?url 0) = 3"
    by code_simp
  then obtain r where r: "downloadVideoAndExtractAudio ?nd ?url 0 = (Inr r, 3)"
    by (cases "downloadVideoAndExtractAudio ?nd ?url 0";
        cases "fst (downloadVideoAndExtractAudio ?nd ?url 0)") auto
  have i: "includes_str ?url ''instagram.com''"
    by code_simp
  have t: "takeWhile (\<lambda>x. x \<noteq> CHR ''?'') ?url = ''https://www.instagram.com/reel/Cabc/''"
    by simp
  from inputUrl_verbatim_and_cleaned_url_passed [of ?nd ?url 0] r i t
  show ?thesis by auto
qed

subsection \<open>The platform value and the argument profile (C9)\<close>

text \<open>
  C9 (as amended). In every run the platform is computed by \<^verbatim>\<open>detectPlatform\<close> from the
  submitted URL, and that value is the \<^verbatim>\<open>platform\<close> of the result and the value the music
  fallback tests. The argument construction does not reuse it: every command a run
  launches (the probe always is) is the executable or the module invocation with exactly
  the base arguments, the flag sets \<^verbatim>\<open>buildCommonArgs\<close> derives from the cleaned URL by its
  own tests for \<^verbatim>\<open>tiktok.com\<close> and for \<^verbatim>\<open>instagram.com\<close>, and the arguments of the probe,
  the video fetch or the audio extraction. These flag sets are exactly the flag set of the
  detected platform whenever the URL does not contain both substrings and, if it contains
  \<^verbatim>\<open>instagram.com\<close>, contains it before its first \<^verbatim>\<open>?\<close>.
\<close>

theorem args_profile_agrees_with_platform:
  "(\<forall>r w'. downloadVideoAndExtractAudio nd url w = (Inr r, w')
      \<longrightarrow> platform r = detectPlatform url)
   \<and> (\<forall>r w' ident w0 out err w1.
        downloadVideoAndExtractAudio nd url w = (Inr r, w')
        \<and> randomUUID nd w = (ident, w0)
        \<and> runYtDlpWithFallbacks nd (cleanInstagramUrl url) (probeArgs (cleanInstagramUrl url))
             None w0 = (Inr (out, err), w1)
        \<longrightarrow> (\<exists>u. formatsAudioUrl nd (parseMetadata nd out) = Inr u
                 \<and> audioUrl r =
                     (if \<not> truthy u \<and> detectPlatform url = Tiktok
                      then tiktokMusicUrl (parseMetadata nd out) else u)))
   \<and> buildCommonArgs nd (cleanInstagramUrl url)
       = baseArgs nd @ rederivedArgs (cleanInstagramUrl url)
   \<and> (''yt-dlp'', baseArgs nd @ rederivedArgs (cleanInstagramUrl url)
                    @ probeArgs (cleanInstagramUrl url))
       \<in> set (snd (snd (downloadVideoAndExtractAudio (recording nd) url (w, []))))
   \<and> (\<forall>c\<in>set (snd (snd (downloadVideoAndExtractAudio (recording nd) url (w, [])))).
         launchedWith nd (baseArgs nd @ rederivedArgs (cleanInstagramUrl url))
           (fst (randomUUID nd w)) (cleanInstagramUrl url) c)
   \<and> (\<not> (includes_str url ''tiktok.com'' \<and> includes_str url ''instagram.com'')
       \<and> (includes_str url ''instagram.com''
            \<longrightarrow> includes_str (takeWhile (\<lambda>x. x \<noteq> CHR ''?'') url) ''instagram.com'')
      \<longrightarrow> rederivedArgs (cleanInstagramUrl url) = platformArgs (detectPlatform url)
          \<and> (\<forall>c\<in>set (snd (snd (downloadVideoAndExtractAudio (recording nd) url (w, [])))).
                launchedWith nd (baseArgs nd @ platformArgs (detectPlatform url))
                  (fst (randomUUID nd w)) (cleanInstagramUrl url) c))"
proof -
  let ?cu = "cleanInstagramUrl url"
  let ?id = "fst (randomUUID nd w)"
  let ?log = "snd (snd (downloadVideoAndExtractAudio (recording nd) url (w, [])))"
  have field: "\<forall>r w'. downloadVideoAndExtractAudio nd url w = (Inr r, w')
                 \<longrightarrow> platform r = detectPlatform url"
    using downloadVideoAndExtractAudio_result [of nd url w] by blast
  have music: "\<forall>r w' ident w0 out err w1.
        downloadVideoAndExtractAudio nd url w = (Inr r, w')
        \<and> randomUUID nd w = (ident, w0)
        \<and> runYtDlpWithFallbacks nd ?cu (probeArgs ?cu) None w0 = (Inr (out, err), w1)
        \<longrightarrow> (\<exists>u. formatsAudioUrl nd (parseMetadata nd out) = Inr u
                 \<and> audioUrl r =
                     (if \<not> truthy u \<and> detectPlatform url = Tiktok
                      then tiktokMusicUrl (parseMetadata nd out) else u))"
  proof (intro allI impI)
    fix r w' ident w0 out err w1
    assume a: "downloadVideoAndExtractAudio nd url w = (Inr r, w')
        \<and> randomUUID nd w = (ident, w0)
        \<and> runYtDlpWithFallbacks nd ?cu (probeArgs ?cu) None w0 = (Inr (out, err), w1)"
    then have "deriveEnrichment nd (detectPlatform url) (parseMetadata nd out) =
           Inr \<lparr>en_title = title r, en_thumbnailUrl = thumbnailUrl r,
                en_publishedAt = publishedAt r, en_audioUrl = audioUrl r\<rparr>"
      using downloadVideoAndExtractAudio_enrichment [of nd url w r w' ident w0 out err w1]
      by blast
    then have "selectAudioUrl nd (detectPlatform url) (parseMetadata nd out) = Inr (audioUrl r)"
      by (auto simp: deriveEnrichment_def split: sum.splits)
    then show "\<exists>u. formatsAudioUrl nd (parseMetadata nd out) = Inr u
                 \<and> audioUrl r =
                     (if \<not> truthy u \<and> detectPlatform url = Tiktok
                      then tiktokMusicUrl (parseMetadata nd out) else u)"
      by (cases "formatsAudioUrl nd (parseMetadata nd out)")
         (auto simp: selectAudioUrl_def simp del: detectPlatform.simps split: if_splits)
  qed
  have common: "buildCommonArgs nd ?cu = baseArgs nd @ rederivedArgs ?cu"
    by (simp add: buildCommonArgs_eq rederivedArgs_def)
  obtain new where
    d: "downloadVideoAndExtractAudio (recording nd) url (w, []) =
          (fst (downloadVideoAndExtractAudio nd url w),
           (snd (downloadVideoAndExtractAudio nd url w), [] @ new))"
    and n: "\<forall>c\<in>set new. invocationOf nd ?cu (probeArgs ?cu) c
              \<or> invocationOf nd ?cu (videoArgs nd ?id ?cu) c
              \<or> invocationOf nd ?cu (audioArgs nd ?id ?cu) c"
    and m: "(''yt-dlp'', buildCommonArgs nd ?cu @ probeArgs ?cu) \<in> set new"
    using downloadVideoAndExtractAudio_recording [of nd url w "[]"] by blast
  from d have log: "?log = new"
    by simp
  have probe: "(''yt-dlp'', baseArgs nd @ rederivedArgs ?cu @ probeArgs ?cu) \<in> set ?log"
    using m unfolding log common by simp
  have exact: "\<forall>c\<in>set ?log. launchedWith nd (baseArgs nd @ rederivedArgs ?cu) ?id ?cu c"
    using n unfolding log
    by (simp add: launchedWith_def launchOf_def invocationOf_def common)
  have agree: "rederivedArgs ?cu = platformArgs (detectPlatform url)
          \<and> (\<forall>c\<in>set ?log. launchedWith nd (baseArgs nd @ platformArgs (detectPlatform url)) ?id ?cu c)"
    if h: "\<not> (includes_str url ''tiktok.com'' \<and> includes_str url ''instagram.com'')
       \<and> (includes_str url ''instagram.com''
            \<longrightarrow> includes_str (takeWhile (\<lambda>x. x \<noteq> CHR ''?'') url) ''instagram.com'')"
  proof -
    have prof: "rederivedArgs ?cu = platformArgs (detectPlatform url)"
    proof (cases "includes_str url ''instagram.com''")
      case True
      with h have "\<not> includes_str url ''tiktok.com''"
        and "includes_str (takeWhile (\<lambda>x. x \<noteq> CHR ''?'') url) ''instagram.com''"
        by auto
      moreover from this
      have "\<not> includes_str (takeWhile (\<lambda>x. x \<noteq> CHR ''?'') url) ''tiktok.com''"
        using includes_str_takeWhile by blast
      ultimately show ?thesis
        using True by (simp add: rederivedArgs_def cleanInstagramUrl_eq platformArgs_def)
    next
      case False
      then show ?thesis
        by (simp add: rederivedArgs_def cleanInstagramUrl_eq platformArgs_def)
    qed
    with exact show ?thesis by simp
  qed
  from field music common probe exact agree show ?thesis
    by blast
qed

text \<open>
  Two runs. An Instagram reel URL with a query string: the platform is instagram and every
  command launched carries the instagram flag set and the URL without its query string.
  A tiktok URL whose probe names a music URL and no formats: the platform is tiktok and
  the music URL becomes the \<^verbatim>\<open>audioUrl\<close>.
\<close>

theorem args_profile_agrees_with_platform_witness:
  "(\<exists>r. downloadVideoAndExtractAudio
           (scripted [exits0 ''{}'', exits0 [], exits0 []] [(''{}'', JObj [])] videoFound)
           ''https://www.instagram.com/reel/Cabc/?igsh=MTIz'' 0 = (Inr r, 3)
        \<and> platform r = Instagram
        \<and> (\<forall>c\<in>set (snd (snd (downloadVideoAndExtractAudio
                 (recording (scripted [exits0 ''{}'', exits0 [], exits0 []]
                               [(''{}'', JObj [])] videoFound))
                 ''https://www.instagram.com/reel/Cabc/?igsh=MTIz'' (0, [])))).
              launchedWith
                (scripted [exits0 ''{}'', exits0 [], exits0 []] [(''{}'', JObj [])] videoFound)
                (baseArgs (scripted [exits0 ''{}'', exits0 [], exits0 []] [(''{}'', JObj [])]
                             videoFound)
                 @ instagramArgs)
                ''7f3a'' ''https://www.instagram.com/reel/Cabc/'' c))
   \<and> (''yt-dlp'',
       baseArgs (scripted [exits0 ''{}'', exits0 [], exits0 []] [(''{}'', JObj [])] videoFound)
       @ instagramArgs @ [''-J'', ''--no-playlist'', ''https://www.instagram.com/reel/Cabc/''])
      \<in> set (snd (snd (downloadVideoAndExtractAudio
            (recording (scripted [exits0 ''{}'', exits0 [], exits0 []]
                          [(''{}'', JObj [])] videoFound))
            ''https://www.instagram.com/reel/Cabc/?igsh=MTIz'' (0, []))))
   \<and> (\<exists>r. downloadVideoAndExtractAudio
           (scripted [exits0 ''{music}'', exits0 [], exits0 []] [(''{music}'', musicOnly)]
              videoFound)
           ''https://www.tiktok.com/@user/video/123'' 0 = (Inr r, 3)
        \<and> platform r = Tiktok
        \<and> audioUrl r = JStr ''https://sf16.example/music.mp3'')"
proof -
  let ?ni = "scripted [exits0 ''{}'', exits0 [], exits0 []] [(''{}'', JObj [])] videoFound"
  let ?ui = "''https://www.instagram.com/reel/Cabc/?igsh=MTIz''"
  let ?nt = "scripted [exits0 ''{music}'', exits0 [], exits0 []] [(''{music}'', musicOnly)]
               videoFound"
  let ?ut = "''https://www.tiktok.com/@user/video/123''"
  note ti = args_profile_agrees_with_platform [of ?ni ?ui 0]
  note tt = args_profile_agrees_with_platform [of ?nt ?ut 0]
  have h: "\<not> (includes_str ?ui ''tiktok.com'' \<and> includes_str ?ui ''instagram.com'')
           \<and> (includes_str ?ui ''instagram.com''
                \<longrightarrow> includes_str (takeWhile (\<lambda>x. x \<noteq> CHR ''?'') ?ui) ''instagram.com'')"
    by code_simp
  have pi: "detectPlatform ?ui = Instagram"
    and ci: "cleanInstagramUrl ?ui = ''https://www.instagram.com/reel/Cabc/''"
    and ii: "fst (randomUUID ?ni 0) = ''7f3a''"
    by code_simp+
  have "\<not> isl (fst (downloadVideoAndExtractAudio ?ni ?ui 0))
        \<and> snd (downloadVideoAndExtractAudio ?ni ?ui 0) = 3"
    by code_simp
  then obtain ri where ri: "downloadVideoAndExtractAudio ?ni ?ui 0 = (Inr ri, 3)"
    by (cases "downloadVideoAndExtractAudio ?ni ?ui 0";
        cases "fst (downloadVideoAndExtractAudio ?ni ?ui 0)") auto
  from ti ri have 1: "platform ri = Instagram"
    unfolding pi by blast
  from ti h have re: "rederivedArgs (cleanInstagramUrl ?ui) = platformArgs (detectPlatform ?ui)"
    by blast
  from ti have 2: "(''yt-dlp'', baseArgs ?ni @ instagramArgs
                      @ [''-J'', ''--no-playlist'', ''https://www.instagram.com/reel/Cabc/''])
      \<in> set (snd (snd (downloadVideoAndExtractAudio (recording ?ni) ?ui (0, []))))"
    unfolding re unfolding pi ci by (simp add: platformArgs_def probeArgs_def)
  from ti h have 3: "\<forall>c\<in>set (snd (snd (downloadVideoAndExtractAudio (recording ?ni) ?ui (0, [])))).
         launchedWith ?ni (baseArgs ?ni @ instagramArgs) ''7f3a''
           ''https://www.instagram.com/reel/Cabc/'' c"
    unfolding pi ci ii by (simp add: platformArgs_def)
  have pt: "detectPlatform ?ut = Tiktok"
    by code_simp
  have h1: "randomUUID ?nt 0 = (''7f3a'', 0)"
    by code_simp
  have h2: "runYtDlpWithFallbacks ?nt (cleanInstagramUrl ?ut) (probeArgs (cleanInstagramUrl ?ut))
              None 0 = (Inr (''{music}'', []), 1)"
    by code_simp
  have md: "parseMetadata ?nt ''{music}'' = musicOnly"
    by code_simp
  have fa: "formatsAudioUrl ?nt musicOnly = Inr Undefined"
    and mu: "tiktokMusicUrl musicOnly = JStr ''https://sf16.example/music.mp3''"
    by code_simp+
  have "\<not> isl (fst (downloadVideoAndExtractAudio ?nt ?ut 0))
        \<and> snd (downloadVideoAndExtractAudio ?nt ?ut 0) = 3"
    by code_simp
  then obtain rt where rt: "downloadVideoAndExtractAudio ?nt ?ut 0 = (Inr rt, 3)"
    by (cases "downloadVideoAndExtractAudio ?nt ?ut 0";
        cases "fst (downloadVideoAndExtractAudio ?nt ?ut 0)") auto
  from tt rt have 4: "platform rt = Tiktok"
    unfolding pt by blast
  from tt rt h1 h2 obtain u where "formatsAudioUrl ?nt (parseMetadata ?nt ''{music}'') = Inr u"
    and "audioUrl rt =
           (if \<not> truthy u \<and> detectPlatform ?ut = Tiktok
            then tiktokMusicUrl (parseMetadata ?nt ''{music}'') else u)"
    by blast
  then have 5: "audioUrl rt = JStr ''https://sf16.example/music.mp3''"
    unfolding md pt by (simp add: fa mu)
  from ri 1 2 3 rt 4 5 show ?thesis by blast
qed

text \<open>
  The claim as written excludes any disagreement. An Instagram reel URL with
  \<^verbatim>\<open>tiktok.com\<close> in its query string is classified as tiktok, while the arguments built
  from its cleaned form are those of instagram.
\<close>

theorem args_profile_agrees_with_platform_counterexample:
  "detectPlatform ''https://www.instagram.com/reel/Cabc/?ref=tiktok.com'' = Tiktok
   \<and> buildCommonArgs (scripted [] [] [])
        (cleanInstagramUrl ''https://www.instagram.com/reel/Cabc/?ref=tiktok.com'')
      = baseArgs (scripted [] [] []) @ instagramArgs"
  by code_simp

subsection \<open>The order of the platform tests (C10)\<close>

text \<open>
  C10. \<^verbatim>\<open>detectPlatform\<close> tests for \<^verbatim>\<open>tiktok.com\<close> before it tests for
  \<^verbatim>\<open>instagram.com\<close>: every URL that contains both substrings is classified as
  tiktok, not as instagram.
\<close>

theorem detectPlatform_both_is_tiktok:
  assumes "includes_str url ''tiktok.com''" and "includes_str url ''instagram.com''"
  shows "detectPlatform url = Tiktok \<and> detectPlatform url \<noteq> Instagram"
  using assms by simp

theorem detectPlatform_both_is_tiktok_witness:
  "includes_str ''https://www.instagram.com/p/Cabc/?utm_source=tiktok.com'' ''tiktok.com''
   \<and> includes_str ''https://www.instagram.com/p/Cabc/?utm_source=tiktok.com'' ''instagram.com''
   \<and> detectPlatform ''https://www.instagram.com/p/Cabc/?utm_source=tiktok.com'' = Tiktok
   \<and> detectPlatform ''https://www.instagram.com/p/Cabc/?utm_source=tiktok.com'' \<noteq> Instagram"
proof -
  have a: "includes_str ''https://www.instagram.com/p/Cabc/?utm_source=tiktok.com'' ''tiktok.com''"
    by code_simp
  have b: "includes_str ''https://www.instagram.com/p/Cabc/?utm_source=tiktok.com'' ''instagram.com''"
    by code_simp
  show ?thesis
    using a b detectPlatform_both_is_tiktok [OF a b] by blast
qed

end
